theory Spec2Isabelle
  imports Main
begin

section \<open>The reward system: users, coins and the user router\<close>

text \<open>
  The development embeds \<^verbatim>\<open>packages/api/src/router/user.ts\<close> (the endpoints that credit
  and transfer coins), the \<^verbatim>\<open>profile\<close> callback of \<^verbatim>\<open>packages/auth/src/auth-options.ts\<close>
  (the thumbnail of a Discord profile) and the \<^verbatim>\<open>give-coins\<close> slash command that calls
  the router.

  Conventions of the embedding:
  \<^item> the relational store is a list of rows, in insertion order; every store call takes the
    table and returns the new one, or the exception the client throws;
  \<^item> an exception is a value of type \<open>exn\<close>; what an endpoint hands back to its caller is
    an \<open>outcome\<close>: the envelope it returns, the \<^verbatim>\<open>TRPCError\<close> it throws, or the value
    \<^verbatim>\<open>undefined\<close> of an \<^verbatim>\<open>async\<close> function whose body ends without \<^verbatim>\<open>return\<close>;
  \<^item> amounts and balances are integers (\<open>int\<close>): the spec's data model has \<^verbatim>\<open>coins\<close> an
    integer, and the width of the column is fixed by a schema that is not part of the sources,
    so overflow of the column and fractional amounts are outside the model. A number read
    from a string by \<^verbatim>\<open>parseInt\<close> is a double: \<open>parseInt\<close> below rounds as the engine does;
  \<^item> a store call reads or writes the table as it is at that moment. An endpoint is the
    composition of its store calls on one table, which is the endpoint run in isolation: the
    source awaits each call separately and opens no transaction, so the calls of two requests
    can interleave. \<open>debitAndCredit\<close> is the part of a transfer after its balance check, to be
    run on the table another request may have left;
  \<^item> a message is the i18n key passed to \<^verbatim>\<open>i18n.t\<close>;
  \<^item> a string is the list of the UTF-8 bytes of the JavaScript string.
\<close>

subsection \<open>Rows\<close>

text \<open>
  The \<^verbatim>\<open>User\<close> row, with the columns the router and the sign-in callback write.
  \<open>row_id\<close> is the key the store generates (\<^verbatim>\<open>id\<close> in the source).
\<close>

record user =
  row_id :: nat
  name :: string
  email :: "string option"
  discordId :: "string option"
  discordUserName :: "string option"
  discordDiscriminator :: "string option"
  githubId :: "string option"
  githubUserName :: "string option"
  thumbnail :: string
  coins :: int

type_synonym db = "user list"

text \<open>The \<^verbatim>\<open>user\<close> object of the Discord endpoints (\<^verbatim>\<open>id, username, avatar, discriminator\<close>).\<close>

record discord_user =
  du_id :: string
  username :: string
  avatar :: "string option"
  discriminator :: string

text \<open>The \<^verbatim>\<open>user\<close> object of \<^verbatim>\<open>sendCoinsByGithubId\<close> (\<^verbatim>\<open>id, login, name, email, avatarUrl\<close>).\<close>

record github_user =
  gu_id :: string
  login :: string
  gu_name :: string
  gu_email :: string
  avatarUrl :: string

subsection \<open>Exceptions and outcomes\<close>

datatype trpc_code = CONFLICT | BAD_REQUEST | UNAUTHORIZED | INTERNAL_SERVER_ERROR

text \<open>
  The classes of thrown values the handlers distinguish by \<^verbatim>\<open>instanceof\<close>; a known request
  error carries the store's error code. \<open>PrismaClientValidationError\<close> is what the store's
  client throws for an argument of the wrong type; \<open>OtherError\<close> is any other thrown value
  (a lost connection, for instance).
\<close>

datatype exn =
    PrismaClientKnownRequestError string
  | PrismaClientValidationError
  | ZodError
  | TRPCError trpc_code string
  | OtherError

datatype response = SUCCESS

record envelope =
  status :: response
  data :: user

datatype outcome =
    Returned envelope
  | Raised trpc_code string
  | ReturnedUndefined

text \<open>
  Modelled from the spec: the constants module (\<^verbatim>\<open>PrismaErrorCode\<close>, \<^verbatim>\<open>Response\<close>,
  \<^verbatim>\<open>TRPCErrorCode\<close>) is not among the sources. \<open>UniqueConstraintViolation\<close> is the code of
  the persistence layer's unique-constraint violation, the one failure the spec has
  re-classified as a conflict; its value is the code the store's client documents for it.
  \<open>RecordNotFound\<close> is the code of an \<^verbatim>\<open>update\<close> whose \<^verbatim>\<open>where\<close> matches no row.
\<close>

definition UniqueConstraintViolation :: string where
  "UniqueConstraintViolation = ''P2002''"

definition RecordNotFound :: string where
  "RecordNotFound = ''P2025''"

text \<open>The i18n keys of the messages.\<close>

definition userAlreadyExists :: string where
  "userAlreadyExists = ''package.api.item.buyItem.error.userAlreadyExists''"

definition invalidItemId :: string where
  "invalidItemId = ''package.api.item.buyItem.error.invalidItemId''"

definition unauthorized :: string where
  "unauthorized = ''common.message.error.unauthorized''"

definition insufficientBalance :: string where
  "insufficientBalance = ''package.api.user.payCoinsByUserId.error.insufficientBalance''"

subsection \<open>The store\<close>

text \<open>
  Modelled from the spec: the schema of the store is not among the sources. The spec's data
  model has \<^verbatim>\<open>email\<close>, \<^verbatim>\<open>discordId\<close> and \<^verbatim>\<open>githubId\<close> unique when present, a null value
  colliding with nothing. The code agrees and adds a column: the router resolves rows with
  \<^verbatim>\<open>findUnique\<close>/\<^verbatim>\<open>upsert\<close> on \<^verbatim>\<open>discordId\<close>, \<^verbatim>\<open>email\<close> and \<^verbatim>\<open>githubId\<close>, and the sign-in
  callback with \<^verbatim>\<open>findUnique\<close> and \<^verbatim>\<open>update\<close> on \<^verbatim>\<open>discordUserName\<close>, which the store's client
  accepts for unique columns only. The model takes these four columns as unique; whether the
  schema declares a further one is not known from the sources.
\<close>

definition sameKey :: "string option \<Rightarrow> string option \<Rightarrow> bool" where
  "sameKey a b = (a \<noteq> None \<and> a = b)"

definition collides :: "user \<Rightarrow> user \<Rightarrow> bool" where
  "collides r u =
     (sameKey (email r) (email u) \<or> sameKey (discordId r) (discordId u)
      \<or> sameKey (discordUserName r) (discordUserName u) \<or> sameKey (githubId r) (githubId u))"

definition violatesUnique :: "db \<Rightarrow> user \<Rightarrow> bool" where
  "violatesUnique rows r = list_ex (collides r) rows"

text \<open>\<^verbatim>\<open>prisma.user.findUnique({ where: { discordId } })\<close>: the row or \<^verbatim>\<open>null\<close>.\<close>

definition findUnique_discordId :: "db \<Rightarrow> string \<Rightarrow> user option" where
  "findUnique_discordId rows d = find (\<lambda>u. discordId u = Some d) rows"

text \<open>
  \<^verbatim>\<open>prisma.user.create({ data })\<close>: the row is appended under a fresh key, or the unique
  constraint fails and nothing is written.
\<close>

definition create :: "db \<Rightarrow> user \<Rightarrow> exn + (db \<times> user)" where
  "create rows d =
     (if violatesUnique rows d then Inl (PrismaClientKnownRequestError UniqueConstraintViolation)
      else (let r = d\<lparr>row_id := length rows\<rparr> in Inr (rows @ [r], r)))"

fun updateFirst :: "('a \<Rightarrow> bool) \<Rightarrow> ('a \<Rightarrow> 'a) \<Rightarrow> 'a list \<Rightarrow> 'a list" where
  "updateFirst P f [] = []"
| "updateFirst P f (x # xs) = (if P x then f x # xs else x # updateFirst P f xs)"

definition increment :: "int \<Rightarrow> user \<Rightarrow> user" where
  "increment n u = u\<lparr>coins := coins u + n\<rparr>"

definition decrement :: "int \<Rightarrow> user \<Rightarrow> user" where
  "decrement n u = u\<lparr>coins := coins u - n\<rparr>"

text \<open>
  \<^verbatim>\<open>prisma.user.update({ where, data })\<close>: the matching row is rewritten and returned; when
  no row matches the client throws a known request error. The write has no other condition.
\<close>

definition update :: "db \<Rightarrow> (user \<Rightarrow> bool) \<Rightarrow> (user \<Rightarrow> user) \<Rightarrow> exn + (db \<times> user)" where
  "update rows P f =
     (case find P rows of
        None \<Rightarrow> Inl (PrismaClientKnownRequestError RecordNotFound)
      | Some u \<Rightarrow> Inr (updateFirst P f rows, f u))"

text \<open>\<^verbatim>\<open>prisma.user.upsert({ where, update, create })\<close>.\<close>

definition upsert :: "db \<Rightarrow> (user \<Rightarrow> bool) \<Rightarrow> (user \<Rightarrow> user) \<Rightarrow> user \<Rightarrow> exn + (db \<times> user)" where
  "upsert rows P f d =
     (case find P rows of
        Some u \<Rightarrow> Inr (updateFirst P f rows, f u)
      | None \<Rightarrow> create rows d)"

subsection \<open>Numbers read from strings\<close>

text \<open>
  The values \<^verbatim>\<open>parseInt\<close> can return: \<^verbatim>\<open>NaN\<close>, an integer that is a double, or an infinity.
\<close>

datatype number = NaN | Num int | PosInfinity | NegInfinity

text \<open>
  The number of bytes of the white-space or line-terminator code point at the head of a
  string, 0 when there is none: TAB, LF, VT, FF, CR and SP, then U+00A0, U+2000 to U+200A,
  U+2028, U+2029, U+202F, U+1680, U+205F, U+3000 and U+FEFF in UTF-8.
\<close>

definition whiteSpaceBytes :: "string \<Rightarrow> nat" where
  "whiteSpaceBytes s =
     (let b = (map of_char s :: nat list) in
      case b of
        [] \<Rightarrow> 0
      | x # _ \<Rightarrow>
          if x \<in> set [9, 10, 11, 12, 13, 32] then 1
          else if take 2 b = [194, 160] then 2
          else if take 2 b = [226, 128]
                  \<and> (case drop 2 b of
                        y # _ \<Rightarrow> (128 \<le> y \<and> y \<le> 138) \<or> y = 168 \<or> y = 169 \<or> y = 175
                      | [] \<Rightarrow> False) then 3
          else if take 3 b \<in> set [[225, 154, 128], [226, 129, 159], [227, 128, 128], [239, 187, 191]]
          then 3
          else 0)"

function trimStart :: "string \<Rightarrow> string" where
  "trimStart s = (if whiteSpaceBytes s = 0 then s else trimStart (drop (whiteSpaceBytes s) s))"
  by pat_completeness auto
termination
proof (relation "measure length")
  show "wf (measure length)" by simp
next
  fix s :: string
  assume "whiteSpaceBytes s \<noteq> 0"
  moreover from this have "s \<noteq> []" by (auto simp: whiteSpaceBytes_def)
  ultimately show "(drop (whiteSpaceBytes s) s, s) \<in> measure length" by simp
qed

declare trimStart.simps [simp del]

text \<open>The value of a digit or letter in a radix up to 36; 36 for any other byte.\<close>

definition digitValue :: "char \<Rightarrow> nat" where
  "digitValue c =
     (let n = (of_char c :: nat) in
      if 48 \<le> n \<and> n \<le> 57 then n - 48
      else if 97 \<le> n \<and> n \<le> 122 then n - 87
      else if 65 \<le> n \<and> n \<le> 90 then n - 55
      else 36)"

text \<open>
  The double nearest to a natural number: exact below \<open>2 ^ 53\<close>, otherwise rounded to 53
  significant bits, ties to the even significand; \<open>None\<close> when the result is beyond the
  largest double, which reads as an infinity.
\<close>

fun bitLength :: "nat \<Rightarrow> nat" where
  "bitLength n = (if n = 0 then 0 else Suc (bitLength (n div 2)))"

declare bitLength.simps [simp del]

definition toDouble :: "nat \<Rightarrow> nat option" where
  "toDouble m =
     (if m < 2 ^ 53 then Some m
      else (let e = bitLength m - 53;
                q = m div 2 ^ e;
                r = m mod 2 ^ e;
                q' = (if 2 ^ e < 2 * r \<or> (2 * r = 2 ^ e \<and> odd q) then q + 1 else q)
            in if q' * 2 ^ e < 2 ^ 1024 then Some (q' * 2 ^ e) else None))"

text \<open>
  \<^verbatim>\<open>parseInt(s)\<close> without a radix: leading white space is skipped, one sign is read, a
  \<^verbatim>\<open>0x\<close> prefix selects radix 16, and the longest run of digits is read as an integer and
  rounded to a double; with no digit the result is \<^verbatim>\<open>NaN\<close>.
\<close>

definition parseInt :: "string \<Rightarrow> number" where
  "parseInt inputString =
     (let s = trimStart inputString;
          sign = (case s of c # _ \<Rightarrow> if c = CHR ''-'' then - 1 else 1 | [] \<Rightarrow> (1 :: int));
          s1 = (case s of c # r \<Rightarrow> if c = CHR ''+'' \<or> c = CHR ''-'' then r else s | [] \<Rightarrow> s);
          hex = (case s1 of a # b # _ \<Rightarrow> a = CHR ''0'' \<and> (b = CHR ''x'' \<or> b = CHR ''X'') | _ \<Rightarrow> False);
          R = (if hex then 16 else (10 :: nat));
          s2 = (if hex then drop 2 s1 else s1);
          z = takeWhile (\<lambda>c. digitValue c < R) s2
      in if z = [] then NaN
         else (case toDouble (foldl (\<lambda>acc c. acc * R + digitValue c) 0 z) of
                 None \<Rightarrow> if sign < 0 then NegInfinity else PosInfinity
               | Some v \<Rightarrow> Num (sign * int v)))"

text \<open>
  The \<^verbatim>\<open>%\<close> operator with an integer divisor other than 0: the remainder has the sign of
  the dividend; of \<^verbatim>\<open>NaN\<close> or an infinity it is \<^verbatim>\<open>NaN\<close>.
\<close>

definition remainder :: "number \<Rightarrow> int \<Rightarrow> number" where
  "remainder a b = (case a of Num n \<Rightarrow> Num (sgn n * (\<bar>n\<bar> mod \<bar>b\<bar>)) | _ \<Rightarrow> NaN)"

text \<open>
  A number inside a template string. An integer prints as its decimal digits (the form of
  every integer below \<open>10 ^ 21\<close>; the number printed here is a remainder of a division by 5).
\<close>

definition digitChar :: "nat \<Rightarrow> char" where
  "digitChar n = char_of (48 + n)"

fun natToString :: "nat \<Rightarrow> string" where
  "natToString n = (if n < 10 then [digitChar n] else natToString (n div 10) @ [digitChar (n mod 10)])"

declare natToString.simps [simp del]

definition numberToString :: "number \<Rightarrow> string" where
  "numberToString a =
     (case a of
        NaN \<Rightarrow> ''NaN''
      | PosInfinity \<Rightarrow> ''Infinity''
      | NegInfinity \<Rightarrow> ''-Infinity''
      | Num n \<Rightarrow> if n < 0 then CHR ''-'' # natToString (nat (- n)) else natToString (nat n))"

definition startsWith :: "string \<Rightarrow> string \<Rightarrow> bool" where
  "startsWith s p = (take (length p) s = p)"

subsection \<open>Thumbnails\<close>

text \<open>
  The \<^verbatim>\<open>profile\<close> callback of the Discord provider. It computes the display URL from the
  avatar hash, the account id and the discriminator, assigns it to \<^verbatim>\<open>profile.image_url\<close>, a
  field of its argument, and returns a new object whose \<^verbatim>\<open>thumbnail\<close> is that field and
  whose \<^verbatim>\<open>id\<close> is the result of \<^verbatim>\<open>createId()\<close>.

  The model returns the argument as the call leaves it, together with the returned object.
  \<^verbatim>\<open>createId()\<close> returns a fresh random identifier: the value it returns in this call is the
  input \<open>cuid\<close>, so that a statement for every \<open>cuid\<close> holds whatever \<^verbatim>\<open>createId()\<close> returns.
  The avatar of a Discord profile is a string or \<^verbatim>\<open>null\<close>; the test is \<^verbatim>\<open>=== null\<close>, so an
  avatar that is \<^verbatim>\<open>undefined\<close> reaches \<^verbatim>\<open>profile.avatar.startsWith\<close>, which throws.
\<close>

datatype js_error = TypeError

datatype avatar_value = Undefined | Null | Hash string

record discord_profile =
  dp_id :: string
  dp_username :: string
  dp_email :: "string option"
  dp_avatar :: avatar_value
  dp_discriminator :: string
  dp_image_url :: "string option"

record auth_user =
  au_id :: string
  au_name :: string
  au_email :: "string option"
  au_discordId :: string
  au_discordUserName :: string
  au_discordDiscriminator :: string
  au_thumbnail :: "string option"

text \<open>The object of the \<^verbatim>\<open>return\<close> statement, read from the profile as it is then.\<close>

definition returned :: "string \<Rightarrow> discord_profile \<Rightarrow> auth_user" where
  "returned cuid p =
     \<lparr>au_id = cuid, au_name = dp_username p, au_email = dp_email p, au_discordId = dp_id p,
      au_discordUserName = dp_username p, au_discordDiscriminator = dp_discriminator p,
      au_thumbnail = dp_image_url p\<rparr>"

definition profile :: "string \<Rightarrow> discord_profile \<Rightarrow> js_error + discord_profile \<times> auth_user" where
  "profile cuid p =
     (case dp_avatar p of
        Null \<Rightarrow>
          (let defaultAvatarNumber = remainder (parseInt (dp_discriminator p)) 5;
               p' = p\<lparr>dp_image_url :=
                      Some (''https://cdn.discordapp.com/embed/avatars/''
                            @ numberToString defaultAvatarNumber @ ''.png'')\<rparr>
           in Inr (p', returned cuid p'))
      | Hash h \<Rightarrow>
          (let format = (if startsWith h ''a_'' then ''gif'' else ''png'');
               p' = p\<lparr>dp_image_url :=
                      Some (''https://cdn.discordapp.com/avatars/'' @ dp_id p @ ''/'' @ h
                            @ ''.'' @ format)\<rparr>
           in Inr (p', returned cuid p'))
      | Undefined \<Rightarrow> Inl TypeError)"

text \<open>
  Modelled from the spec: \<^verbatim>\<open>setThumbnailUrl\<close> of \<^verbatim>\<open>utils/functions\<close> is not among the
  sources. The spec's thumbnail resolver maps the avatar hash (a string, or absent), the id
  and the discriminator of a user to the display URL: without a hash the default avatar
  selected by the discriminator modulo 5, with a hash the avatar of the account, \<^verbatim>\<open>gif\<close> for
  a hash that starts with \<^verbatim>\<open>a_\<close> and \<^verbatim>\<open>png\<close> otherwise. The URLs are those of the \<^verbatim>\<open>profile\<close>
  callback. The endpoints' input schema makes the avatar a string or \<^verbatim>\<open>null\<close>.
\<close>

definition setThumbnailUrl :: "discord_user \<Rightarrow> string" where
  "setThumbnailUrl u =
     (case avatar u of
        None \<Rightarrow>
          ''https://cdn.discordapp.com/embed/avatars/''
            @ numberToString (remainder (parseInt (discriminator u)) 5) @ ''.png''
      | Some h \<Rightarrow>
          ''https://cdn.discordapp.com/avatars/'' @ du_id u @ ''/'' @ h @ ''.''
            @ (if startsWith h ''a_'' then ''gif'' else ''png''))"

subsection \<open>The error handler of the endpoints\<close>

text \<open>
  Every endpoint ends with the same \<^verbatim>\<open>catch\<close> block: three \<^verbatim>\<open>if\<close> statements in a row,
  each throwing, and nothing after the last one.
\<close>

fun errorHandler :: "exn \<Rightarrow> outcome" where
  "errorHandler (PrismaClientKnownRequestError c) =
     (if c = UniqueConstraintViolation then Raised CONFLICT userAlreadyExists else ReturnedUndefined)"
| "errorHandler ZodError = Raised BAD_REQUEST invalidItemId"
| "errorHandler (TRPCError c m) =
     (if c = UNAUTHORIZED then Raised UNAUTHORIZED unauthorized else Raised INTERNAL_SERVER_ERROR m)"
| "errorHandler PrismaClientValidationError = ReturnedUndefined"
| "errorHandler OtherError = ReturnedUndefined"

subsection \<open>Credit\<close>

text \<open>
  A store call returns a row or throws, so the \<^verbatim>\<open>if (!user)\<close> tests that follow the calls
  never fire; they have no branch here.
\<close>

definition newDiscordRow :: "discord_user \<Rightarrow> int \<Rightarrow> user" where
  "newDiscordRow u n =
     \<lparr>row_id = 0, name = username u, email = None, discordId = Some (du_id u),
      discordUserName = Some (username u), discordDiscriminator = Some (discriminator u),
      githubId = None, githubUserName = None, thumbnail = setThumbnailUrl u, coins = n\<rparr>"

definition sendCoinsByUserId :: "db \<Rightarrow> discord_user \<Rightarrow> int \<Rightarrow> db \<times> outcome" where
  "sendCoinsByUserId rows u amount =
     (case upsert rows (\<lambda>r. discordId r = Some (du_id u)) (increment amount) (newDiscordRow u amount) of
        Inl e \<Rightarrow> (rows, errorHandler e)
      | Inr (rows', r) \<Rightarrow> (rows', Returned \<lparr>status = SUCCESS, data = r\<rparr>))"

definition newGithubRow :: "github_user \<Rightarrow> int \<Rightarrow> user" where
  "newGithubRow g n =
     \<lparr>row_id = 0, name = gu_name g, email = Some (gu_email g), discordId = None,
      discordUserName = None, discordDiscriminator = None,
      githubId = Some (gu_id g), githubUserName = Some (login g), thumbnail = avatarUrl g, coins = n\<rparr>"

text \<open>
  \<^verbatim>\<open>coins\<close> arrives as a string. When \<^verbatim>\<open>parseInt\<close> gives \<^verbatim>\<open>NaN\<close> or an infinity the store's
  client refuses the argument of the integer column with a validation error, before any row
  is read.
\<close>

definition sendCoinsByGithubId :: "db \<Rightarrow> github_user \<Rightarrow> string \<Rightarrow> db \<times> outcome" where
  "sendCoinsByGithubId rows g cs =
     (case parseInt cs of
        Num n \<Rightarrow>
          (case upsert rows (\<lambda>r. githubId r = Some (gu_id g)) (increment n) (newGithubRow g n) of
             Inl e \<Rightarrow> (rows, errorHandler e)
           | Inr (rows', r) \<Rightarrow> (rows', Returned \<lparr>status = SUCCESS, data = r\<rparr>))
      | _ \<Rightarrow> (rows, errorHandler PrismaClientValidationError))"

subsection \<open>Transfer\<close>

text \<open>
  The second half of \<^verbatim>\<open>payCoinsByUserId\<close>, from the decrement of the sender to the
  \<^verbatim>\<open>return\<close>: the two writes are separate store calls, each on the table as it is then.
\<close>

definition debitAndCredit :: "db \<Rightarrow> discord_user \<Rightarrow> discord_user \<Rightarrow> int \<Rightarrow> db \<times> outcome" where
  "debitAndCredit rows receiver sender amount =
     (case update rows (\<lambda>r. discordId r = Some (du_id sender)) (decrement amount) of
        Inl e \<Rightarrow> (rows, errorHandler e)
      | Inr (rows1, newSenderBalance) \<Rightarrow>
          (let tempThumbnail = setThumbnailUrl receiver in
           case upsert rows1 (\<lambda>r. discordId r = Some (du_id receiver)) (increment amount)
                  (newDiscordRow receiver amount) of
             Inl e \<Rightarrow> (rows1, errorHandler e)
           | Inr (rows2, updatedReceiver) \<Rightarrow>
               (rows2, Returned \<lparr>status = SUCCESS, data = updatedReceiver\<rparr>)))"

definition payCoinsByUserId :: "db \<Rightarrow> discord_user \<Rightarrow> discord_user \<Rightarrow> int \<Rightarrow> db \<times> outcome" where
  "payCoinsByUserId rows receiver sender amount =
     (case findUnique_discordId rows (du_id sender) of
        None \<Rightarrow>
          (case create rows (newDiscordRow sender 0) of
             Inl e \<Rightarrow> (rows, errorHandler e)
           | Inr (rows', newUser) \<Rightarrow>
               (rows', errorHandler (TRPCError INTERNAL_SERVER_ERROR insufficientBalance)))
      | Some senderBalance \<Rightarrow>
          if coins senderBalance \<le> 0 \<or> coins senderBalance < amount
          then (rows, errorHandler (TRPCError INTERNAL_SERVER_ERROR insufficientBalance))
          else debitAndCredit rows receiver sender amount)"

subsection \<open>The give-coins command\<close>

text \<open>
  The slash command that credits coins: the caller of \<^verbatim>\<open>sendCoinsByUserId\<close>. An interaction
  carries whether the member has the admin role, the acting user's id and the two options.
  The comparison \<^verbatim>\<open>parseInt(coins) < 1\<close> is false for \<^verbatim>\<open>NaN\<close> and for \<^verbatim>\<open>Infinity\<close>. With
  \<^verbatim>\<open>NaN\<close> the call fails in the input schema of the endpoint (\<^verbatim>\<open>z.number()\<close>), before the
  endpoint's body, and the command replies with the message of that error. With \<^verbatim>\<open>Infinity\<close>
  no row is written either, but whether the value is refused by the schema or by the store's
  client depends on the API client, which is not among the sources: the reply in that case
  is the parameter \<open>whenInfinity\<close>.
\<close>

record interaction =
  hasAdminRole :: bool
  actingUserId :: string
  optionUser :: discord_user
  optionCoins :: string

datatype reply =
    Reply string
  | ReplyGive string string string
  | ReplyInputError
  | NoReply

definition notAllowed :: string where
  "notAllowed = ''bot:common.error.notAllowed''"

definition invalidAmount :: string where
  "invalidAmount = ''bot:common.error.invalidAmount''"

definition internalError :: string where
  "internalError = ''common:message.error.internalError''"

definition lessThan1 :: "number \<Rightarrow> bool" where
  "lessThan1 a = (case a of Num n \<Rightarrow> n < 1 | NegInfinity \<Rightarrow> True | _ \<Rightarrow> False)"

definition execute :: "reply \<Rightarrow> db \<Rightarrow> interaction \<Rightarrow> db \<times> reply" where
  "execute whenInfinity rows i =
     (if \<not> hasAdminRole i then (rows, Reply notAllowed)
      else if lessThan1 (parseInt (optionCoins i)) then (rows, Reply invalidAmount)
      else case parseInt (optionCoins i) of
        Num n \<Rightarrow>
          (case sendCoinsByUserId rows (optionUser i) n of
             (rows', Returned response) \<Rightarrow>
               (rows', ReplyGive (actingUserId i) (optionCoins i) (du_id (optionUser i)))
           | (rows', Raised c m) \<Rightarrow> (rows', Reply (if m \<noteq> [] then m else internalError))
           | (rows', ReturnedUndefined) \<Rightarrow> (rows', NoReply))
      | NaN \<Rightarrow> (rows, ReplyInputError)
      | _ \<Rightarrow> (rows, whenInfinity))"

subsection \<open>Balances\<close>

definition nonneg :: "db \<Rightarrow> bool" where
  "nonneg rows = list_all (\<lambda>u. 0 \<le> coins u) rows"

definition balance :: "db \<Rightarrow> string \<Rightarrow> int option" where
  "balance rows d = map_option coins (findUnique_discordId rows d)"

subsection \<open>Sample data\<close>

definition alice :: discord_user where
  "alice = \<lparr>du_id = ''1'', username = ''alice'', avatar = None, discriminator = ''7''\<rparr>"

definition bob :: discord_user where
  "bob = \<lparr>du_id = ''2'', username = ''bob'', avatar = Some ''a_abc123'', discriminator = ''0042''\<rparr>"

text \<open>Another account that carries the user name of \<open>bob\<close>.\<close>

definition bobby :: discord_user where
  "bobby = \<lparr>du_id = ''3'', username = ''bob'', avatar = None, discriminator = ''0007''\<rparr>"

definition aliceRow :: "int \<Rightarrow> user" where
  "aliceRow n = (newDiscordRow alice n)\<lparr>row_id := 0\<rparr>"

definition bobRow :: "int \<Rightarrow> user" where
  "bobRow n = (newDiscordRow bob n)\<lparr>row_id := 1\<rparr>"

definition octo :: github_user where
  "octo = \<lparr>gu_id = ''583231'', login = ''octo'', gu_name = ''Octo'', gu_email = ''octo@example.org'',
           avatarUrl = ''https://avatars.example.org/u/583231''\<rparr>"

text \<open>A row of a Discord account registered under the e-mail address of \<open>octo\<close>.\<close>

definition mailRow :: user where
  "mailRow = (aliceRow 0)\<lparr>email := Some ''octo@example.org''\<rparr>"

definition plainProfile :: discord_profile where
  "plainProfile = \<lparr>dp_id = ''42'', dp_username = ''carol'', dp_email = None, dp_avatar = Null,
                   dp_discriminator = ''7'', dp_image_url = None\<rparr>"

definition animatedProfile :: discord_profile where
  "animatedProfile = plainProfile\<lparr>dp_avatar := Hash ''a_abc123''\<rparr>"

definition adminGive :: "string \<Rightarrow> interaction" where
  "adminGive cs = \<lparr>hasAdminRole = True, actingUserId = ''9'', optionUser = alice, optionCoins = cs\<rparr>"

section \<open>Properties\<close>

subsection \<open>Store calls\<close>

lemma find_updateFirst_same:
  "(\<And>x. P x \<Longrightarrow> P (f x)) \<Longrightarrow> find P (updateFirst P f xs) = map_option f (find P xs)"
  by (induction xs) auto

lemma find_updateFirst_other:
  "(\<And>x. P x \<Longrightarrow> \<not> Q x \<and> \<not> Q (f x)) \<Longrightarrow> find Q (updateFirst P f xs) = find Q xs"
  by (induction xs) auto

lemma updateFirst_twice:
  "(\<And>x. P x \<Longrightarrow> P (f x)) \<Longrightarrow> updateFirst P g (updateFirst P f xs) = updateFirst P (\<lambda>x. g (f x)) xs"
  by (induction xs) auto

lemma updateFirst_ident: "(\<And>x. f x = x) \<Longrightarrow> updateFirst P f xs = xs"
  by (induction xs) auto

lemma list_all_updateFirst:
  "find P xs = Some u \<Longrightarrow> list_all Q xs \<Longrightarrow> Q (f u) \<Longrightarrow> list_all Q (updateFirst P f xs)"
  by (induction xs) (auto split: if_splits)

lemma list_ex_updateFirst:
  "(\<And>x. Q (f x) = Q x) \<Longrightarrow> list_ex Q (updateFirst P f xs) = list_ex Q xs"
  by (induction xs) auto

lemma length_updateFirst: "length (updateFirst P f xs) = length xs"
  by (induction xs) auto

lemma collides_decrement: "collides r (decrement n u) = collides r u"
  by (simp add: collides_def decrement_def)

lemma violatesUnique_decrement:
  "violatesUnique (updateFirst P (decrement n) rows) r = violatesUnique rows r"
  unfolding violatesUnique_def by (rule list_ex_updateFirst) (rule collides_decrement)

lemmas parseInt_eval =
  parseInt_def trimStart.simps whiteSpaceBytes_def digitValue_def toDouble_def Let_def

lemma parseInt_15: "parseInt ''15'' = Num 15"
  by (simp add: parseInt_eval)

lemma parseInt_7: "parseInt ''7'' = Num 7"
  by (simp add: parseInt_eval)

lemma parseInt_abc: "parseInt ''abc'' = NaN"
  by (simp add: parseInt_eval)

lemma parseInt_minus_5: "parseInt ''-5'' = Num (- 5)"
  by (simp add: parseInt_eval)

subsection \<open>Balances stay non-negative when the amount is\<close>

lemma nonneg_append: "nonneg (rows @ [r]) = (nonneg rows \<and> 0 \<le> coins r)"
  by (simp add: nonneg_def)

lemma nonneg_create:
  "nonneg rows \<Longrightarrow> 0 \<le> coins d \<Longrightarrow> create rows d = Inr (rows', r) \<Longrightarrow> nonneg rows'"
  by (auto simp: create_def Let_def nonneg_append split: if_splits)

lemma nonneg_upsert:
  assumes nn: "nonneg rows" and n: "0 \<le> n" and d: "0 \<le> coins d"
    and up: "upsert rows P (increment n) d = Inr (rows', r)"
  shows "nonneg rows'"
proof (cases "find P rows")
  case None
  with up have "create rows d = Inr (rows', r)" by (simp add: upsert_def)
  with nn d show ?thesis by (rule nonneg_create)
next
  case (Some u)
  with up have rows': "rows' = updateFirst P (increment n) rows" by (simp add: upsert_def)
  from Some have "u \<in> set rows" by (auto simp: find_Some_iff)
  with nn have "0 \<le> coins u" by (simp add: nonneg_def list_all_iff)
  with n have "0 \<le> coins (increment n u)" by (simp add: increment_def)
  with Some nn show ?thesis unfolding rows' nonneg_def by (intro list_all_updateFirst)
qed

lemma nonneg_sendCoinsByUserId:
  assumes nn: "nonneg rows" and a: "0 \<le> amount"
  shows "nonneg (fst (sendCoinsByUserId rows u amount))"
proof (cases "upsert rows (\<lambda>r. discordId r = Some (du_id u)) (increment amount) (newDiscordRow u amount)")
  case (Inl e)
  with nn show ?thesis by (simp add: sendCoinsByUserId_def)
next
  case (Inr p)
  obtain rows' r where p: "p = (rows', r)" by (cases p)
  have d: "0 \<le> coins (newDiscordRow u amount)" using a by (simp add: newDiscordRow_def)
  from nn a d Inr [unfolded p] have "nonneg rows'" by (rule nonneg_upsert)
  with Inr p show ?thesis by (simp add: sendCoinsByUserId_def)
qed

lemma nonneg_update_decrement:
  assumes "nonneg rows" and "find P rows = Some s" and "amount \<le> coins s"
  shows "nonneg (updateFirst P (decrement amount) rows)"
proof -
  from assms(3) have "0 \<le> coins (decrement amount s)" by (simp add: decrement_def)
  with assms(1,2) show ?thesis unfolding nonneg_def by (intro list_all_updateFirst)
qed

lemma nonneg_debitAndCredit:
  assumes nn: "nonneg rows" and s: "find (\<lambda>r. discordId r = Some (du_id sender)) rows = Some s"
    and le: "amount \<le> coins s" and a: "0 \<le> amount"
  shows "nonneg (fst (debitAndCredit rows receiver sender amount))"
proof -
  let ?rows1 = "updateFirst (\<lambda>r. discordId r = Some (du_id sender)) (decrement amount) rows"
  have nn1: "nonneg ?rows1" using nn s le by (rule nonneg_update_decrement)
  have d: "0 \<le> coins (newDiscordRow receiver amount)" using a by (simp add: newDiscordRow_def)
  show ?thesis
  proof (cases "upsert ?rows1 (\<lambda>r. discordId r = Some (du_id receiver)) (increment amount)
                  (newDiscordRow receiver amount)")
    case (Inl e)
    with s nn1 show ?thesis by (simp add: debitAndCredit_def update_def)
  next
    case (Inr p)
    obtain rows2 r where p: "p = (rows2, r)" by (cases p)
    from nn1 a d Inr [unfolded p] have "nonneg rows2" by (rule nonneg_upsert)
    with s Inr p show ?thesis by (simp add: debitAndCredit_def update_def)
  qed
qed

lemma nonneg_payCoinsByUserId:
  assumes nn: "nonneg rows" and a: "0 \<le> amount"
  shows "nonneg (fst (payCoinsByUserId rows receiver sender amount))"
proof (cases "findUnique_discordId rows (du_id sender)")
  case None
  show ?thesis
  proof (cases "create rows (newDiscordRow sender 0)")
    case (Inl e)
    with None nn show ?thesis by (simp add: payCoinsByUserId_def)
  next
    case (Inr p)
    obtain rows' r where p: "p = (rows', r)" by (cases p)
    have "0 \<le> coins (newDiscordRow sender 0)" by (simp add: newDiscordRow_def)
    with nn have "nonneg rows'" using Inr [unfolded p] by (rule nonneg_create)
    with None Inr p show ?thesis by (simp add: payCoinsByUserId_def)
  qed
next
  case (Some s)
  show ?thesis
  proof (cases "coins s \<le> 0 \<or> coins s < amount")
    case True
    with Some nn show ?thesis by (auto simp: payCoinsByUserId_def)
  next
    case False
    then have le: "amount \<le> coins s" by simp
    from Some have f: "find (\<lambda>r. discordId r = Some (du_id sender)) rows = Some s"
      by (simp add: findUnique_discordId_def)
    have "nonneg (fst (debitAndCredit rows receiver sender amount))"
      using nn f le a by (rule nonneg_debitAndCredit)
    with Some False show ?thesis by (simp add: payCoinsByUserId_def)
  qed
qed

lemma nonneg_sendCoinsByGithubId:
  assumes nn: "nonneg rows" and a: "0 \<le> (case parseInt cs of Num n \<Rightarrow> n | _ \<Rightarrow> 0)"
  shows "nonneg (fst (sendCoinsByGithubId rows g cs))"
proof (cases "parseInt cs")
  case (Num n)
  with a have n: "0 \<le> n" by simp
  have d: "0 \<le> coins (newGithubRow g n)" using n by (simp add: newGithubRow_def)
  show ?thesis
  proof (cases "upsert rows (\<lambda>r. githubId r = Some (gu_id g)) (increment n) (newGithubRow g n)")
    case (Inl e)
    with Num nn show ?thesis by (simp add: sendCoinsByGithubId_def)
  next
    case (Inr p)
    obtain rows' r where p: "p = (rows', r)" by (cases p)
    from nn n d Inr [unfolded p] have "nonneg rows'" by (rule nonneg_upsert)
    with Num Inr p show ?thesis by (simp add: sendCoinsByGithubId_def)
  qed
qed (use nn in \<open>simp_all add: sendCoinsByGithubId_def\<close>)

lemma nonneg_write_half:
  assumes nn: "nonneg rows" and a: "0 \<le> amount"
    and w: "(case findUnique_discordId rows (du_id sender) of None \<Rightarrow> True | Some s \<Rightarrow> amount \<le> coins s)"
  shows "nonneg (fst (debitAndCredit rows receiver sender amount))"
proof (cases "findUnique_discordId rows (du_id sender)")
  case None
  with nn show ?thesis
    by (simp add: debitAndCredit_def update_def findUnique_discordId_def)
next
  case (Some s)
  with w have le: "amount \<le> coins s" by simp
  from Some have f: "find (\<lambda>r. discordId r = Some (du_id sender)) rows = Some s"
    by (simp add: findUnique_discordId_def)
  from nn f le a show ?thesis by (rule nonneg_debitAndCredit)
qed

text \<open>
  C1, as stated: every ledger operation keeps every balance non-negative. It fails in two
  ways. A transfer of \<open>- 5\<close> from a sender with 10 coins passes the balance check and takes 5
  coins from a receiver who has none. And the check and the decrement of a transfer are
  separate store calls: a transfer of 5 checks a sender with 10 coins, another transfer of 7
  from that sender runs, and the write half of the first leaves the sender at \<open>- 2\<close>.
\<close>

theorem C1_counterexample:
  "nonneg [aliceRow 10, bobRow 0]
   \<and> \<not> nonneg (fst (payCoinsByUserId [aliceRow 10, bobRow 0] bob alice (- 5)))
   \<and> findUnique_discordId [aliceRow 10, bobRow 0] (du_id alice) = Some (aliceRow 10)
   \<and> \<not> (coins (aliceRow 10) \<le> 0 \<or> coins (aliceRow 10) < 5)
   \<and> fst (payCoinsByUserId [aliceRow 10, bobRow 0] bob alice 7) = [aliceRow 3, bobRow 7]
   \<and> nonneg [aliceRow 3, bobRow 7]
   \<and> fst (debitAndCredit [aliceRow 3, bobRow 7] bob alice 5) = [aliceRow (- 2), bobRow 12]
   \<and> \<not> nonneg [aliceRow (- 2), bobRow 12]"
  by (simp add: nonneg_def aliceRow_def bobRow_def newDiscordRow_def alice_def bob_def
      payCoinsByUserId_def findUnique_discordId_def debitAndCredit_def update_def upsert_def
      increment_def decrement_def)

text \<open>
  C1, amended: from a table in which every balance is non-negative, a credit or a transfer
  of a non-negative amount (for \<^verbatim>\<open>sendCoinsByGithubId\<close>: a string that does not parse to a
  negative number), run in isolation, so that no other request writes between its store
  calls, leaves every balance non-negative. For a transfer whose check was made earlier, the
  write half keeps every balance non-negative on any such table on which the sender's
  balance is still at least the amount or the sender's row is gone.
\<close>

theorem C1_nonneg_preserved:
  assumes "nonneg rows" and "0 \<le> amount"
    and "0 \<le> (case parseInt cs of Num n \<Rightarrow> n | _ \<Rightarrow> 0)"
  shows "nonneg (fst (sendCoinsByUserId rows u amount))
    \<and> nonneg (fst (sendCoinsByGithubId rows g cs))
    \<and> nonneg (fst (payCoinsByUserId rows receiver sender amount))
    \<and> ((case findUnique_discordId rows (du_id sender) of None \<Rightarrow> True | Some s \<Rightarrow> amount \<le> coins s)
         \<longrightarrow> nonneg (fst (debitAndCredit rows receiver sender amount)))"
  using assms
  by (simp add: nonneg_sendCoinsByUserId nonneg_sendCoinsByGithubId nonneg_payCoinsByUserId
      nonneg_write_half)

theorem C1_nonneg_preserved_witness:
  "nonneg [aliceRow 10, bobRow 0] \<and> (0 :: int) \<le> 5
   \<and> 0 \<le> (case parseInt ''15'' of Num n \<Rightarrow> n | _ \<Rightarrow> 0)
   \<and> nonneg (fst (sendCoinsByUserId [aliceRow 10, bobRow 0] alice 5))
   \<and> nonneg (fst (sendCoinsByGithubId [aliceRow 10, bobRow 0] octo ''15''))
   \<and> nonneg (fst (payCoinsByUserId [aliceRow 10, bobRow 0] bob alice 5))
   \<and> (case findUnique_discordId [aliceRow 10, bobRow 0] (du_id alice) of
         None \<Rightarrow> True | Some s \<Rightarrow> 5 \<le> coins s)
   \<and> nonneg (fst (debitAndCredit [aliceRow 10, bobRow 0] bob alice 5))"
proof -
  have 1: "nonneg [aliceRow 10, bobRow 0]"
    by (simp add: nonneg_def aliceRow_def bobRow_def newDiscordRow_def)
  have 2: "(0 :: int) \<le> 5" by simp
  have 3: "0 \<le> (case parseInt ''15'' of Num n \<Rightarrow> n | _ \<Rightarrow> 0)" by (simp add: parseInt_15)
  have 4: "(case findUnique_discordId [aliceRow 10, bobRow 0] (du_id alice) of
              None \<Rightarrow> True | Some s \<Rightarrow> 5 \<le> coins s)"
    by (simp add: findUnique_discordId_def aliceRow_def bobRow_def newDiscordRow_def alice_def bob_def)
  from C1_nonneg_preserved [OF 1 2 3, of alice octo bob alice] 1 2 3 4 show ?thesis by simp
qed

subsection \<open>Unique columns and the steps of a transfer\<close>

lemma violatesUnique_newDiscordRow:
  "violatesUnique rows (newDiscordRow u n)
   = list_ex (\<lambda>r. discordId r = Some (du_id u) \<or> discordUserName r = Some (username u)) rows"
proof -
  have "collides (newDiscordRow u n)
        = (\<lambda>r. discordId r = Some (du_id u) \<or> discordUserName r = Some (username u))"
    by (auto simp: fun_eq_iff collides_def sameKey_def newDiscordRow_def)
  then show ?thesis by (simp add: violatesUnique_def)
qed

lemma violatesUnique_newGithubRow:
  "violatesUnique rows (newGithubRow g n)
   = list_ex (\<lambda>r. email r = Some (gu_email g) \<or> githubId r = Some (gu_id g)) rows"
proof -
  have "collides (newGithubRow g n)
        = (\<lambda>r. email r = Some (gu_email g) \<or> githubId r = Some (gu_id g))"
    by (auto simp: fun_eq_iff collides_def sameKey_def newGithubRow_def)
  then show ?thesis by (simp add: violatesUnique_def)
qed

lemma fresh_discord_row:
  assumes "find (\<lambda>r. discordId r = Some (du_id u)) rows = None"
    and "list_all (\<lambda>r. discordUserName r \<noteq> Some (username u)) rows"
  shows "\<not> violatesUnique rows (newDiscordRow u n)"
  using assms by (auto simp: violatesUnique_newDiscordRow find_None_iff list_ex_iff list_all_iff)

lemma taken_discord_row:
  assumes "list_ex (\<lambda>r. discordUserName r = Some (username u)) rows"
  shows "violatesUnique rows (newDiscordRow u n)"
  using assms by (auto simp: violatesUnique_newDiscordRow list_ex_iff)

lemma discordId_decrement: "discordId (decrement n u) = discordId u"
  by (simp add: decrement_def)

lemma discordId_increment: "discordId (increment n u) = discordId u"
  by (simp add: increment_def)

lemma increment_decrement: "increment n (decrement n u) = u"
  by (simp add: increment_def decrement_def)

lemma pay_passes_check:
  assumes "findUnique_discordId rows (du_id sender) = Some s" and "0 < coins s" and "amount \<le> coins s"
  shows "payCoinsByUserId rows receiver sender amount = debitAndCredit rows receiver sender amount"
  using assms by (simp add: payCoinsByUserId_def)

lemma debit_step:
  assumes "findUnique_discordId rows (du_id sender) = Some s"
  shows "update rows (\<lambda>r. discordId r = Some (du_id sender)) (decrement amount)
         = Inr (updateFirst (\<lambda>r. discordId r = Some (du_id sender)) (decrement amount) rows,
                decrement amount s)"
  using assms by (simp add: update_def findUnique_discordId_def)

lemma find_after_debit_same:
  "find (\<lambda>r. discordId r = Some d) (updateFirst (\<lambda>r. discordId r = Some d) (decrement n) rows)
   = map_option (decrement n) (find (\<lambda>r. discordId r = Some d) rows)"
  by (rule find_updateFirst_same) (simp add: discordId_decrement)

lemma find_after_debit_other:
  "d \<noteq> e \<Longrightarrow>
   find (\<lambda>r. discordId r = Some e) (updateFirst (\<lambda>r. discordId r = Some d) (decrement n) rows)
   = find (\<lambda>r. discordId r = Some e) rows"
  by (rule find_updateFirst_other) (simp add: discordId_decrement)

lemma find_after_credit_same:
  "find (\<lambda>r. discordId r = Some d) (updateFirst (\<lambda>r. discordId r = Some d) (increment n) rows)
   = map_option (increment n) (find (\<lambda>r. discordId r = Some d) rows)"
  by (rule find_updateFirst_same) (simp add: discordId_increment)

lemma find_after_credit_other:
  "d \<noteq> e \<Longrightarrow>
   find (\<lambda>r. discordId r = Some e) (updateFirst (\<lambda>r. discordId r = Some d) (increment n) rows)
   = find (\<lambda>r. discordId r = Some e) rows"
  by (rule find_updateFirst_other) (simp add: discordId_increment)

lemma find_snoc:
  "find P (xs @ [x]) = (case find P xs of None \<Rightarrow> (if P x then Some x else None) | Some y \<Rightarrow> Some y)"
  by (induction xs) auto

subsection \<open>Transfers\<close>

text \<open>
  C5: when the sender exists and holds strictly less than the amount, the transfer is refused
  with the insufficient-balance message and the table is left as it was: neither the sender's
  nor the receiver's row is written.
\<close>

theorem C5_insufficient_balance:
  assumes "findUnique_discordId rows (du_id sender) = Some s" and "coins s < amount"
  shows "payCoinsByUserId rows receiver sender amount
         = (rows, Raised INTERNAL_SERVER_ERROR insufficientBalance)"
  using assms by (simp add: payCoinsByUserId_def)

theorem C5_insufficient_balance_witness:
  "findUnique_discordId [aliceRow 10, bobRow 0] (du_id alice) = Some (aliceRow 10)
   \<and> coins (aliceRow 10) < 30
   \<and> payCoinsByUserId [aliceRow 10, bobRow 0] bob alice 30
       = ([aliceRow 10, bobRow 0], Raised INTERNAL_SERVER_ERROR insufficientBalance)"
proof -
  have 1: "findUnique_discordId [aliceRow 10, bobRow 0] (du_id alice) = Some (aliceRow 10)"
    by (simp add: findUnique_discordId_def aliceRow_def alice_def newDiscordRow_def)
  have 2: "coins (aliceRow 10) < 30"
    by (simp add: aliceRow_def newDiscordRow_def)
  from C5_insufficient_balance [OF 1 2, of bob] 1 2 show ?thesis by simp
qed

text \<open>
  C10: a transfer whose sender and receiver are the same existing user, of a positive amount
  not above the balance, succeeds and leaves the table, and so the balance, unchanged: the
  decrement and the increment hit the same row. The response carries that row.
\<close>

theorem C10_self_transfer:
  assumes s: "findUnique_discordId rows (du_id sender) = Some s"
    and same: "du_id receiver = du_id sender"
    and a: "0 < amount" "amount \<le> coins s"
  shows "payCoinsByUserId rows receiver sender amount = (rows, Returned \<lparr>status = SUCCESS, data = s\<rparr>)"
proof -
  let ?P = "\<lambda>r. discordId r = Some (du_id sender)"
  let ?rows1 = "updateFirst ?P (decrement amount) rows"
  from a have pos: "0 < coins s" by simp
  have f1: "find ?P ?rows1 = Some (decrement amount s)"
    using s by (simp add: find_after_debit_same findUnique_discordId_def)
  have "updateFirst ?P (increment amount) ?rows1
        = updateFirst ?P (\<lambda>x. increment amount (decrement amount x)) rows"
    by (rule updateFirst_twice) (simp add: discordId_decrement)
  also have "\<dots> = rows"
    by (rule updateFirst_ident) (rule increment_decrement)
  finally have restored: "updateFirst ?P (increment amount) ?rows1 = rows" .
  have "debitAndCredit rows receiver sender amount = (rows, Returned \<lparr>status = SUCCESS, data = s\<rparr>)"
    by (simp add: debitAndCredit_def debit_step [OF s] same upsert_def f1 restored increment_decrement)
  with pay_passes_check [OF s pos a(2)] show ?thesis by simp
qed

theorem C10_self_transfer_witness:
  "findUnique_discordId [aliceRow 100, bobRow 0] (du_id alice) = Some (aliceRow 100)
   \<and> du_id alice = du_id alice \<and> (0 :: int) < 30 \<and> 30 \<le> coins (aliceRow 100)
   \<and> payCoinsByUserId [aliceRow 100, bobRow 0] alice alice 30
       = ([aliceRow 100, bobRow 0], Returned \<lparr>status = SUCCESS, data = aliceRow 100\<rparr>)"
proof -
  have 1: "findUnique_discordId [aliceRow 100, bobRow 0] (du_id alice) = Some (aliceRow 100)"
    by (simp add: findUnique_discordId_def aliceRow_def alice_def newDiscordRow_def)
  have 2: "du_id alice = du_id alice" by simp
  have 3: "(0 :: int) < 30" by simp
  have 4: "30 \<le> coins (aliceRow 100)" by (simp add: aliceRow_def newDiscordRow_def)
  from C10_self_transfer [OF 1 2 3 4] 1 3 4 show ?thesis by simp
qed


lemma create_fresh:
  "\<not> violatesUnique rows d \<Longrightarrow> create rows d = Inr (rows @ [d\<lparr>row_id := length rows\<rparr>], d\<lparr>row_id := length rows\<rparr>)"
  by (simp add: create_def Let_def)

lemma create_taken:
  "violatesUnique rows d \<Longrightarrow> create rows d = Inl (PrismaClientKnownRequestError UniqueConstraintViolation)"
  by (simp add: create_def)

lemma balance_after_debit:
  assumes "findUnique_discordId rows d = Some s"
  shows "balance (updateFirst (\<lambda>r. discordId r = Some d) (decrement n) rows) d = Some (coins s - n)"
  using assms
  by (simp add: balance_def findUnique_discordId_def find_after_debit_same decrement_def)

text \<open>
  C3, as stated: with an existing sender holding at least the amount, the sender's balance
  goes down by the amount and a missing receiver is created. Two inputs disagree. When the
  sender is also the receiver the balance does not move. When the missing receiver carries
  the user name of another row the creation violates the unique constraint: the sender is
  debited, no row is created and the call fails with \<open>CONFLICT\<close>.
\<close>

theorem C3_counterexample:
  "balance [aliceRow 100] (du_id alice) = Some 100
   \<and> payCoinsByUserId [aliceRow 100] alice alice 30
       = ([aliceRow 100], Returned \<lparr>status = SUCCESS, data = aliceRow 100\<rparr>)
   \<and> findUnique_discordId [aliceRow 100, bobRow 0] (du_id bobby) = None
   \<and> payCoinsByUserId [aliceRow 100, bobRow 0] bobby alice 30
       = ([aliceRow 70, bobRow 0], Raised CONFLICT userAlreadyExists)"
  by (simp add: balance_def aliceRow_def bobRow_def newDiscordRow_def alice_def bob_def bobby_def
      payCoinsByUserId_def findUnique_discordId_def debitAndCredit_def update_def upsert_def
      create_def violatesUnique_def collides_def sameKey_def increment_def decrement_def
      UniqueConstraintViolation_def)

lemma transfer_existing:
  assumes ne: "du_id sender \<noteq> du_id receiver"
    and s: "findUnique_discordId rows (du_id sender) = Some s"
    and pos: "0 < coins s" and le: "amount \<le> coins s"
    and r: "findUnique_discordId rows (du_id receiver) = Some r"
  defines "rows' \<equiv> updateFirst (\<lambda>x. discordId x = Some (du_id receiver)) (increment amount)
                     (updateFirst (\<lambda>x. discordId x = Some (du_id sender)) (decrement amount) rows)"
  shows "payCoinsByUserId rows receiver sender amount
           = (rows', Returned \<lparr>status = SUCCESS, data = increment amount r\<rparr>)"
    and "balance rows' (du_id sender) = Some (coins s - amount)"
    and "balance rows' (du_id receiver) = Some (coins r + amount)"
proof -
  let ?S = "\<lambda>x. discordId x = Some (du_id sender)"
  let ?R = "\<lambda>x. discordId x = Some (du_id receiver)"
  let ?rows1 = "updateFirst ?S (decrement amount) rows"
  have pay: "payCoinsByUserId rows receiver sender amount = debitAndCredit rows receiver sender amount"
    using s pos le by (rule pay_passes_check)
  have fR: "find ?R ?rows1 = Some r"
    using r find_after_debit_other [OF ne] by (simp add: findUnique_discordId_def)
  have fS: "find ?S ?rows1 = Some (decrement amount s)"
    using s by (simp add: find_after_debit_same findUnique_discordId_def)
  show "payCoinsByUserId rows receiver sender amount
          = (rows', Returned \<lparr>status = SUCCESS, data = increment amount r\<rparr>)"
    unfolding pay rows'_def by (simp add: debitAndCredit_def debit_step [OF s] upsert_def fR)
  have "find ?S rows' = find ?S ?rows1"
    unfolding rows'_def using ne [symmetric] by (rule find_after_credit_other)
  with fS show "balance rows' (du_id sender) = Some (coins s - amount)"
    by (simp add: balance_def findUnique_discordId_def decrement_def)
  have "find ?R rows' = map_option (increment amount) (find ?R ?rows1)"
    unfolding rows'_def by (rule find_after_credit_same)
  with fR show "balance rows' (du_id receiver) = Some (coins r + amount)"
    by (simp add: balance_def findUnique_discordId_def increment_def)
qed

lemma transfer_new:
  assumes ne: "du_id sender \<noteq> du_id receiver"
    and s: "findUnique_discordId rows (du_id sender) = Some s"
    and pos: "0 < coins s" and le: "amount \<le> coins s"
    and r: "findUnique_discordId rows (du_id receiver) = None"
    and free: "list_all (\<lambda>x. discordUserName x \<noteq> Some (username receiver)) rows"
  defines "created \<equiv> (newDiscordRow receiver amount)\<lparr>row_id := length rows\<rparr>"
  defines "rows' \<equiv> updateFirst (\<lambda>x. discordId x = Some (du_id sender)) (decrement amount) rows @ [created]"
  shows "payCoinsByUserId rows receiver sender amount
           = (rows', Returned \<lparr>status = SUCCESS, data = created\<rparr>)"
    and "coins created = amount"
    and "balance rows' (du_id sender) = Some (coins s - amount)"
    and "balance rows' (du_id receiver) = Some amount"
proof -
  let ?S = "\<lambda>x. discordId x = Some (du_id sender)"
  let ?R = "\<lambda>x. discordId x = Some (du_id receiver)"
  let ?rows1 = "updateFirst ?S (decrement amount) rows"
  have pay: "payCoinsByUserId rows receiver sender amount = debitAndCredit rows receiver sender amount"
    using s pos le by (rule pay_passes_check)
  have fR: "find ?R ?rows1 = None"
    using r find_after_debit_other [OF ne] by (simp add: findUnique_discordId_def)
  have fS: "find ?S ?rows1 = Some (decrement amount s)"
    using s by (simp add: find_after_debit_same findUnique_discordId_def)
  have "\<not> violatesUnique rows (newDiscordRow receiver amount)"
    using r free by (intro fresh_discord_row) (simp_all add: findUnique_discordId_def)
  then have "\<not> violatesUnique ?rows1 (newDiscordRow receiver amount)"
    by (simp add: violatesUnique_decrement)
  then have cr: "create ?rows1 (newDiscordRow receiver amount) = Inr (rows', created)"
    by (simp add: create_fresh length_updateFirst rows'_def created_def)
  show "payCoinsByUserId rows receiver sender amount
          = (rows', Returned \<lparr>status = SUCCESS, data = created\<rparr>)"
    unfolding pay by (simp add: debitAndCredit_def debit_step [OF s] upsert_def fR cr)
  show "coins created = amount"
    by (simp add: created_def newDiscordRow_def)
  show "balance rows' (du_id sender) = Some (coins s - amount)"
    by (simp add: balance_def findUnique_discordId_def rows'_def find_snoc fS decrement_def)
  show "balance rows' (du_id receiver) = Some amount"
    by (simp add: balance_def findUnique_discordId_def rows'_def find_snoc fR created_def newDiscordRow_def)
qed

text \<open>
  C3, amended: for a transfer between two different identifiers, with the sender holding at
  least the amount and the amount at least 1: if the receiver exists, the sender's balance
  decreases by the amount, the receiver's increases by the amount, their sum is unchanged and
  the response carries the updated receiver row; if the receiver does not exist and its user
  name is not taken by another row, the sender's balance decreases by the amount, the
  receiver is created with the amount as balance and the response carries the created row.
\<close>

theorem C3_transfer:
  assumes ne: "du_id sender \<noteq> du_id receiver"
    and s: "findUnique_discordId rows (du_id sender) = Some s"
    and a: "1 \<le> amount" and le: "amount \<le> coins s"
  shows "(findUnique_discordId rows (du_id receiver) = Some r \<longrightarrow>
            (let rows' = updateFirst (\<lambda>x. discordId x = Some (du_id receiver)) (increment amount)
                           (updateFirst (\<lambda>x. discordId x = Some (du_id sender)) (decrement amount) rows)
             in payCoinsByUserId rows receiver sender amount
                  = (rows', Returned \<lparr>status = SUCCESS, data = increment amount r\<rparr>)
                \<and> balance rows' (du_id sender) = Some (coins s - amount)
                \<and> balance rows' (du_id receiver) = Some (coins r + amount)
                \<and> (coins s - amount) + (coins r + amount) = coins s + coins r))
       \<and> (findUnique_discordId rows (du_id receiver) = None
            \<and> list_all (\<lambda>x. discordUserName x \<noteq> Some (username receiver)) rows \<longrightarrow>
            (let created = (newDiscordRow receiver amount)\<lparr>row_id := length rows\<rparr>;
                 rows' = updateFirst (\<lambda>x. discordId x = Some (du_id sender)) (decrement amount) rows
                           @ [created]
             in payCoinsByUserId rows receiver sender amount
                  = (rows', Returned \<lparr>status = SUCCESS, data = created\<rparr>)
                \<and> coins created = amount
                \<and> balance rows' (du_id sender) = Some (coins s - amount)
                \<and> balance rows' (du_id receiver) = Some amount))"
proof -
  from a le have pos: "0 < coins s" by simp
  from transfer_existing [OF ne s pos le] transfer_new [OF ne s pos le]
  show ?thesis by (simp add: Let_def)
qed


lemmas sample_defs =
  aliceRow_def bobRow_def newDiscordRow_def alice_def bob_def bobby_def

theorem C3_transfer_witness:
  "du_id alice \<noteq> du_id bob
   \<and> findUnique_discordId [aliceRow 100, bobRow 0] (du_id alice) = Some (aliceRow 100)
   \<and> (1 :: int) \<le> 30 \<and> 30 \<le> coins (aliceRow 100)
   \<and> findUnique_discordId [aliceRow 100, bobRow 0] (du_id bob) = Some (bobRow 0)
   \<and> payCoinsByUserId [aliceRow 100, bobRow 0] bob alice 30
       = ([aliceRow 70, bobRow 30], Returned \<lparr>status = SUCCESS, data = bobRow 30\<rparr>)
   \<and> balance [aliceRow 70, bobRow 30] (du_id alice) = Some 70
   \<and> balance [aliceRow 70, bobRow 30] (du_id bob) = Some 30
   \<and> findUnique_discordId [aliceRow 100] (du_id alice) = Some (aliceRow 100)
   \<and> findUnique_discordId [aliceRow 100] (du_id bob) = None
   \<and> list_all (\<lambda>x. discordUserName x \<noteq> Some (username bob)) [aliceRow 100]
   \<and> payCoinsByUserId [aliceRow 100] bob alice 30
       = ([aliceRow 70, bobRow 30], Returned \<lparr>status = SUCCESS, data = bobRow 30\<rparr>)"
proof -
  have 1: "du_id alice \<noteq> du_id bob" by (simp add: alice_def bob_def)
  have 2: "findUnique_discordId [aliceRow 100, bobRow 0] (du_id alice) = Some (aliceRow 100)"
    by (simp add: findUnique_discordId_def sample_defs)
  have 3: "(1 :: int) \<le> 30" by simp
  have 4: "30 \<le> coins (aliceRow 100)" by (simp add: sample_defs)
  have 5: "findUnique_discordId [aliceRow 100, bobRow 0] (du_id bob) = Some (bobRow 0)"
    by (simp add: findUnique_discordId_def sample_defs)
  have 6: "findUnique_discordId [aliceRow 100] (du_id alice) = Some (aliceRow 100)"
    by (simp add: findUnique_discordId_def sample_defs)
  have 7: "findUnique_discordId [aliceRow 100] (du_id bob) = None"
    by (simp add: findUnique_discordId_def sample_defs)
  have 8: "list_all (\<lambda>x. discordUserName x \<noteq> Some (username bob)) [aliceRow 100]"
    by (simp add: sample_defs)
  have upd: "updateFirst (\<lambda>x. discordId x = Some (du_id bob)) (increment 30)
               (updateFirst (\<lambda>x. discordId x = Some (du_id alice)) (decrement 30)
                  [aliceRow 100, bobRow 0]) = [aliceRow 70, bobRow 30]"
    by (simp add: sample_defs increment_def decrement_def)
  have app: "updateFirst (\<lambda>x. discordId x = Some (du_id alice)) (decrement 30) [aliceRow 100]
               @ [bobRow 30] = [aliceRow 70, bobRow 30]"
    by (simp add: sample_defs increment_def decrement_def)
  have inc: "increment 30 (bobRow 0) = bobRow 30"
    by (simp add: sample_defs increment_def)
  have bR: "(newDiscordRow bob 30)\<lparr>row_id := length [aliceRow 100]\<rparr> = bobRow 30"
    by (simp add: sample_defs)
  have c: "coins (aliceRow 100) - 30 = 70" "coins (bobRow 0) + 30 = 30"
    by (simp_all add: sample_defs)
  note T1 = C3_transfer [OF 1 2 3 4, of "bobRow 0", unfolded Let_def, THEN conjunct1, THEN mp, OF 5]
  have A: "payCoinsByUserId [aliceRow 100, bobRow 0] bob alice 30
             = ([aliceRow 70, bobRow 30], Returned \<lparr>status = SUCCESS, data = bobRow 30\<rparr>)
           \<and> balance [aliceRow 70, bobRow 30] (du_id alice) = Some 70
           \<and> balance [aliceRow 70, bobRow 30] (du_id bob) = Some 30"
    using T1 [unfolded upd inc c] by simp
  note T2 = C3_transfer [OF 1 6 3 4, of "bobRow 0", unfolded Let_def, THEN conjunct2, THEN mp,
      OF conjI [OF 7 8]]
  have B: "payCoinsByUserId [aliceRow 100] bob alice 30
             = ([aliceRow 70, bobRow 30], Returned \<lparr>status = SUCCESS, data = bobRow 30\<rparr>)"
    using T2 [unfolded app bR] by simp
  from 1 2 3 4 5 6 7 8 A B show ?thesis by simp
qed

text \<open>
  C4, as stated: the decrement is conditioned on \<open>coins \<ge> amount\<close> when it is written, and
  otherwise the operation fails without touching the receiver. The write half of the
  transfer, on a table in which the sender holds 3 coins (as a concurrent transfer can leave
  it after the check), takes 5 all the same and credits the receiver.
\<close>

theorem C4_counterexample:
  "coins (aliceRow 3) < 5
   \<and> debitAndCredit [aliceRow 3, bobRow 0] bob alice 5
       = ([aliceRow (- 2), bobRow 5], Returned \<lparr>status = SUCCESS, data = bobRow 5\<rparr>)"
  by (simp add: sample_defs debitAndCredit_def update_def upsert_def increment_def decrement_def)

text \<open>
  C4, amended: the decrement is a write keyed by the sender's identifier alone. Whenever the
  sender's row exists at write time and the receiver is another identifier, the sender's
  balance becomes \<open>coins - amount\<close>, whatever the balance; the only balance condition is the
  earlier check, after which the transfer is exactly this write half. When the write matches
  no row, the operation stops there and the table, the receiver included, is unchanged.
\<close>

theorem C4_unconditional_write:
  "(findUnique_discordId rows (du_id sender) = Some s \<and> du_id sender \<noteq> du_id receiver \<longrightarrow>
      balance (fst (debitAndCredit rows receiver sender amount)) (du_id sender) = Some (coins s - amount))
   \<and> (findUnique_discordId rows (du_id sender) = Some s \<and> 0 < coins s \<and> amount \<le> coins s \<longrightarrow>
      payCoinsByUserId rows receiver sender amount = debitAndCredit rows receiver sender amount)
   \<and> (findUnique_discordId rows (du_id sender) = None \<longrightarrow>
      fst (debitAndCredit rows receiver sender amount) = rows)"
proof (intro conjI impI)
  assume h: "findUnique_discordId rows (du_id sender) = Some s \<and> du_id sender \<noteq> du_id receiver"
  let ?S = "\<lambda>x. discordId x = Some (du_id sender)"
  let ?R = "\<lambda>x. discordId x = Some (du_id receiver)"
  let ?rows1 = "updateFirst ?S (decrement amount) rows"
  from h have s: "findUnique_discordId rows (du_id sender) = Some s"
    and ne: "du_id sender \<noteq> du_id receiver" by simp_all
  have b1: "balance ?rows1 (du_id sender) = Some (coins s - amount)"
    using s by (rule balance_after_debit)
  show "balance (fst (debitAndCredit rows receiver sender amount)) (du_id sender) = Some (coins s - amount)"
  proof (cases "upsert ?rows1 ?R (increment amount) (newDiscordRow receiver amount)")
    case (Inl e)
    with b1 show ?thesis by (simp add: debitAndCredit_def debit_step [OF s])
  next
    case (Inr p)
    obtain rows2 r where p: "p = (rows2, r)" by (cases p)
    have "find ?S rows2 = find ?S ?rows1"
    proof (cases "find ?R ?rows1")
      case None
      with Inr p have "create ?rows1 (newDiscordRow receiver amount) = Inr (rows2, r)"
        by (simp add: upsert_def)
      then have "rows2 = ?rows1 @ [(newDiscordRow receiver amount)\<lparr>row_id := length ?rows1\<rparr>]"
        by (auto simp: create_def Let_def split: if_splits)
      moreover have "find ?S ?rows1 = Some (decrement amount s)"
        using s by (simp add: find_after_debit_same findUnique_discordId_def)
      ultimately show ?thesis by (simp add: find_snoc)
    next
      case (Some u)
      with Inr p have "rows2 = updateFirst ?R (increment amount) ?rows1"
        by (simp add: upsert_def)
      then show ?thesis using find_after_credit_other [OF ne [symmetric]] by simp
    qed
    with b1 have "balance rows2 (du_id sender) = Some (coins s - amount)"
      by (simp add: balance_def findUnique_discordId_def)
    with Inr p show ?thesis by (simp add: debitAndCredit_def debit_step [OF s])
  qed
next
  assume "findUnique_discordId rows (du_id sender) = Some s \<and> 0 < coins s \<and> amount \<le> coins s"
  then show "payCoinsByUserId rows receiver sender amount = debitAndCredit rows receiver sender amount"
    by (simp add: pay_passes_check)
next
  assume "findUnique_discordId rows (du_id sender) = None"
  then show "fst (debitAndCredit rows receiver sender amount) = rows"
    by (simp add: debitAndCredit_def update_def findUnique_discordId_def)
qed

theorem C4_unconditional_write_witness:
  "findUnique_discordId [aliceRow 3, bobRow 0] (du_id alice) = Some (aliceRow 3)
   \<and> du_id alice \<noteq> du_id bob
   \<and> balance (fst (debitAndCredit [aliceRow 3, bobRow 0] bob alice 5)) (du_id alice) = Some (- 2)
   \<and> 0 < coins (aliceRow 3) \<and> 2 \<le> coins (aliceRow 3)
   \<and> payCoinsByUserId [aliceRow 3, bobRow 0] bob alice 2 = debitAndCredit [aliceRow 3, bobRow 0] bob alice 2
   \<and> findUnique_discordId [bobRow 0] (du_id alice) = None
   \<and> fst (debitAndCredit [bobRow 0] bob alice 5) = [bobRow 0]"
proof -
  have 1: "findUnique_discordId [aliceRow 3, bobRow 0] (du_id alice) = Some (aliceRow 3)"
    by (simp add: findUnique_discordId_def sample_defs)
  have 2: "du_id alice \<noteq> du_id bob" by (simp add: alice_def bob_def)
  have 3: "0 < coins (aliceRow 3)" "2 \<le> coins (aliceRow 3)" by (simp_all add: sample_defs)
  have 4: "findUnique_discordId [bobRow 0] (du_id alice) = None"
    by (simp add: findUnique_discordId_def sample_defs)
  have c: "coins (aliceRow 3) - 5 = - 2" by (simp add: sample_defs)
  from C4_unconditional_write [of "[aliceRow 3, bobRow 0]" alice "aliceRow 3" bob 5] 1 2 c
  have A: "balance (fst (debitAndCredit [aliceRow 3, bobRow 0] bob alice 5)) (du_id alice) = Some (- 2)"
    by simp
  from C4_unconditional_write [of "[aliceRow 3, bobRow 0]" alice "aliceRow 3" bob 2] 1 3
  have B: "payCoinsByUserId [aliceRow 3, bobRow 0] bob alice 2 = debitAndCredit [aliceRow 3, bobRow 0] bob alice 2"
    by simp
  from C4_unconditional_write [of "[bobRow 0]" alice s bob 5] 4
  have C: "fst (debitAndCredit [bobRow 0] bob alice 5) = [bobRow 0]"
    by simp
  from 1 2 3 4 A B C show ?thesis by simp
qed

subsection \<open>A transfer from an unknown sender\<close>

text \<open>
  C6, as stated: a transfer from an identifier with no row creates the sender with 0 coins
  and then fails for insufficient balance. When the unknown sender carries the user name of
  another row, the creation violates the unique constraint: no row is written and the call
  fails with \<open>CONFLICT\<close>.
\<close>

theorem C6_counterexample:
  "findUnique_discordId [bobRow 100] (du_id bobby) = None
   \<and> payCoinsByUserId [bobRow 100] alice bobby 30 = ([bobRow 100], Raised CONFLICT userAlreadyExists)"
  by (simp add: sample_defs payCoinsByUserId_def findUnique_discordId_def create_def
      violatesUnique_def collides_def sameKey_def UniqueConstraintViolation_def)

text \<open>
  C6, amended: for a transfer whose sender identifier has no row, if the sender's user name
  is not taken, the sender's row is appended with 0 coins, the call fails with the
  insufficient-balance message, and every other row, the receiver's included, is as before;
  if the user name is taken by another row, nothing is written and the call fails with
  \<open>CONFLICT\<close>.
\<close>

theorem C6_unknown_sender:
  assumes "findUnique_discordId rows (du_id sender) = None"
  shows "(list_all (\<lambda>x. discordUserName x \<noteq> Some (username sender)) rows \<longrightarrow>
            (let created = (newDiscordRow sender 0)\<lparr>row_id := length rows\<rparr>
             in payCoinsByUserId rows receiver sender amount
                  = (rows @ [created], Raised INTERNAL_SERVER_ERROR insufficientBalance)
                \<and> coins created = 0))
       \<and> (list_ex (\<lambda>x. discordUserName x = Some (username sender)) rows \<longrightarrow>
            payCoinsByUserId rows receiver sender amount = (rows, Raised CONFLICT userAlreadyExists))"
proof (intro conjI impI)
  assume "list_all (\<lambda>x. discordUserName x \<noteq> Some (username sender)) rows"
  with assms have "\<not> violatesUnique rows (newDiscordRow sender 0)"
    by (intro fresh_discord_row) (simp_all add: findUnique_discordId_def)
  then show "let created = (newDiscordRow sender 0)\<lparr>row_id := length rows\<rparr>
             in payCoinsByUserId rows receiver sender amount
                  = (rows @ [created], Raised INTERNAL_SERVER_ERROR insufficientBalance)
                \<and> coins created = 0"
    using assms by (simp add: payCoinsByUserId_def create_fresh Let_def newDiscordRow_def)
next
  assume "list_ex (\<lambda>x. discordUserName x = Some (username sender)) rows"
  then have "violatesUnique rows (newDiscordRow sender 0)" by (rule taken_discord_row)
  then show "payCoinsByUserId rows receiver sender amount = (rows, Raised CONFLICT userAlreadyExists)"
    using assms by (simp add: payCoinsByUserId_def create_taken)
qed

theorem C6_unknown_sender_witness:
  "findUnique_discordId [bobRow 100] (du_id alice) = None
   \<and> list_all (\<lambda>x. discordUserName x \<noteq> Some (username alice)) [bobRow 100]
   \<and> payCoinsByUserId [bobRow 100] bob alice 30
       = ([bobRow 100, (aliceRow 0)\<lparr>row_id := 1\<rparr>], Raised INTERNAL_SERVER_ERROR insufficientBalance)
   \<and> coins ((aliceRow 0)\<lparr>row_id := 1\<rparr>) = 0
   \<and> findUnique_discordId [bobRow 100] (du_id bobby) = None
   \<and> list_ex (\<lambda>x. discordUserName x = Some (username bobby)) [bobRow 100]
   \<and> payCoinsByUserId [bobRow 100] bob bobby 30 = ([bobRow 100], Raised CONFLICT userAlreadyExists)"
proof -
  have 1: "findUnique_discordId [bobRow 100] (du_id alice) = None"
    by (simp add: findUnique_discordId_def sample_defs)
  have 2: "list_all (\<lambda>x. discordUserName x \<noteq> Some (username alice)) [bobRow 100]"
    by (simp add: sample_defs)
  have 3: "findUnique_discordId [bobRow 100] (du_id bobby) = None"
    by (simp add: findUnique_discordId_def sample_defs)
  have 4: "list_ex (\<lambda>x. discordUserName x = Some (username bobby)) [bobRow 100]"
    by (simp add: sample_defs)
  have r: "(newDiscordRow alice 0)\<lparr>row_id := length [bobRow 100]\<rparr> = (aliceRow 0)\<lparr>row_id := 1\<rparr>"
    by (simp add: aliceRow_def)
  note T1 = C6_unknown_sender [OF 1, of bob 30, unfolded Let_def, THEN conjunct1, THEN mp, OF 2]
  note T2 = C6_unknown_sender [OF 3, of bob 30, THEN conjunct2, THEN mp, OF 4]
  from T1 [unfolded r] T2 1 2 3 4 show ?thesis by simp
qed

subsection \<open>Errors that the handler lets through\<close>

text \<open>
  C7: every endpoint returns a success envelope or raises a classified error. The handler
  has no branch for a thrown value that is neither a unique-constraint failure, a
  \<^verbatim>\<open>ZodError\<close> nor a \<^verbatim>\<open>TRPCError\<close>: the endpoint then returns \<^verbatim>\<open>undefined\<close>.
  \<^verbatim>\<open>sendCoinsByGithubId\<close> with \<^verbatim>\<open>coins: "abc"\<close> is such a call.
\<close>

theorem C7_silent_return:
  "sendCoinsByGithubId [aliceRow 10] octo ''abc'' = ([aliceRow 10], ReturnedUndefined)
   \<and> errorHandler (PrismaClientKnownRequestError RecordNotFound) = ReturnedUndefined
   \<and> errorHandler OtherError = ReturnedUndefined"
  by (simp add: sendCoinsByGithubId_def parseInt_abc RecordNotFound_def UniqueConstraintViolation_def)

subsection \<open>Amounts that are not positive\<close>

text \<open>
  C2, as stated: a credit or a transfer of an amount \<open>\<le> 0\<close> raises an invalid-amount error
  and leaves the state unchanged. A credit of \<open>- 5\<close> succeeds and takes 5 coins from the
  user; a transfer of \<open>- 5\<close> succeeds and moves 5 coins from the receiver to the sender.
\<close>

theorem C2_counterexample:
  "(- 5 :: int) \<le> 0
   \<and> sendCoinsByUserId [aliceRow 10] alice (- 5)
       = ([aliceRow 5], Returned \<lparr>status = SUCCESS, data = aliceRow 5\<rparr>)
   \<and> payCoinsByUserId [aliceRow 10, bobRow 0] bob alice (- 5)
       = ([aliceRow 15, bobRow (- 5)], Returned \<lparr>status = SUCCESS, data = bobRow (- 5)\<rparr>)"
  by (simp add: sample_defs sendCoinsByUserId_def payCoinsByUserId_def findUnique_discordId_def
      debitAndCredit_def update_def upsert_def increment_def decrement_def)

text \<open>
  C2, amended: the endpoints do not inspect the sign of the amount. For an amount \<open>\<le> 0\<close>:
  a credit to an existing user succeeds and adds the amount as given; a transfer from an
  existing sender is refused, with the table unchanged, when the sender's balance is
  \<open>\<le> 0\<close> (as insufficient balance); a transfer from a sender with a positive balance to
  an existing receiver under another identifier succeeds, the sender's balance becoming
  \<open>coins - amount\<close> and the receiver's \<open>coins + amount\<close>, and the response carries the
  receiver's row. The refusal of such an amount before any store access is the caller's: the
  give-coins command replies \<open>invalidAmount\<close> (\<open>notAllowed\<close> to a member without the admin
  role) and calls no endpoint.
\<close>

theorem C2_amount_not_validated:
  assumes "amount \<le> 0"
  shows "(findUnique_discordId rows (du_id u) = Some r \<longrightarrow>
            sendCoinsByUserId rows u amount
              = (updateFirst (\<lambda>x. discordId x = Some (du_id u)) (increment amount) rows,
                 Returned \<lparr>status = SUCCESS, data = increment amount r\<rparr>))
       \<and> (find (\<lambda>x. githubId x = Some (gu_id g)) rows = Some r \<and> parseInt cs = Num amount \<longrightarrow>
            sendCoinsByGithubId rows g cs
              = (updateFirst (\<lambda>x. githubId x = Some (gu_id g)) (increment amount) rows,
                 Returned \<lparr>status = SUCCESS, data = increment amount r\<rparr>))
       \<and> (findUnique_discordId rows (du_id sender) = Some s \<and> coins s \<le> 0 \<longrightarrow>
            payCoinsByUserId rows receiver sender amount
              = (rows, Raised INTERNAL_SERVER_ERROR insufficientBalance))
       \<and> (findUnique_discordId rows (du_id sender) = Some s \<and> 0 < coins s
            \<and> findUnique_discordId rows (du_id receiver) = Some r
            \<and> du_id sender \<noteq> du_id receiver \<longrightarrow>
            (let rows' = updateFirst (\<lambda>x. discordId x = Some (du_id receiver)) (increment amount)
                           (updateFirst (\<lambda>x. discordId x = Some (du_id sender)) (decrement amount) rows)
             in payCoinsByUserId rows receiver sender amount
                  = (rows', Returned \<lparr>status = SUCCESS, data = increment amount r\<rparr>)
                \<and> balance rows' (du_id sender) = Some (coins s - amount)
                \<and> balance rows' (du_id receiver) = Some (coins r + amount)))
       \<and> (parseInt (optionCoins i) = Num amount \<longrightarrow>
            execute whenInfinity rows i
              = (rows, Reply (if hasAdminRole i then invalidAmount else notAllowed)))"
proof (intro conjI impI)
  assume "findUnique_discordId rows (du_id u) = Some r"
  then show "sendCoinsByUserId rows u amount
              = (updateFirst (\<lambda>x. discordId x = Some (du_id u)) (increment amount) rows,
                 Returned \<lparr>status = SUCCESS, data = increment amount r\<rparr>)"
    by (simp add: sendCoinsByUserId_def upsert_def findUnique_discordId_def)
next
  assume "find (\<lambda>x. githubId x = Some (gu_id g)) rows = Some r \<and> parseInt cs = Num amount"
  then show "sendCoinsByGithubId rows g cs
              = (updateFirst (\<lambda>x. githubId x = Some (gu_id g)) (increment amount) rows,
                 Returned \<lparr>status = SUCCESS, data = increment amount r\<rparr>)"
    by (simp add: sendCoinsByGithubId_def upsert_def)
next
  assume "findUnique_discordId rows (du_id sender) = Some s \<and> coins s \<le> 0"
  then show "payCoinsByUserId rows receiver sender amount
              = (rows, Raised INTERNAL_SERVER_ERROR insufficientBalance)"
    by (simp add: payCoinsByUserId_def)
next
  assume h: "findUnique_discordId rows (du_id sender) = Some s \<and> 0 < coins s
            \<and> findUnique_discordId rows (du_id receiver) = Some r
            \<and> du_id sender \<noteq> du_id receiver"
  then have s: "findUnique_discordId rows (du_id sender) = Some s" and pos: "0 < coins s"
    and r: "findUnique_discordId rows (du_id receiver) = Some r"
    and ne: "du_id sender \<noteq> du_id receiver" by simp_all
  from assms pos have le: "amount \<le> coins s" by simp
  from transfer_existing [OF ne s pos le r]
  show "let rows' = updateFirst (\<lambda>x. discordId x = Some (du_id receiver)) (increment amount)
                           (updateFirst (\<lambda>x. discordId x = Some (du_id sender)) (decrement amount) rows)
        in payCoinsByUserId rows receiver sender amount
             = (rows', Returned \<lparr>status = SUCCESS, data = increment amount r\<rparr>)
           \<and> balance rows' (du_id sender) = Some (coins s - amount)
           \<and> balance rows' (du_id receiver) = Some (coins r + amount)"
    by (simp add: Let_def)
next
  assume "parseInt (optionCoins i) = Num amount"
  with assms show "execute whenInfinity rows i
              = (rows, Reply (if hasAdminRole i then invalidAmount else notAllowed))"
    by (simp add: execute_def lessThan1_def)
qed

theorem C2_amount_not_validated_witness:
  "(- 5 :: int) \<le> 0
   \<and> findUnique_discordId [aliceRow 10, bobRow 0] (du_id alice) = Some (aliceRow 10)
   \<and> sendCoinsByUserId [aliceRow 10, bobRow 0] alice (- 5)
       = (updateFirst (\<lambda>x. discordId x = Some (du_id alice)) (increment (- 5)) [aliceRow 10, bobRow 0],
          Returned \<lparr>status = SUCCESS, data = increment (- 5) (aliceRow 10)\<rparr>)
   \<and> find (\<lambda>x. githubId x = Some (gu_id octo)) [(newGithubRow octo 10)\<lparr>row_id := 0\<rparr>]
       = Some ((newGithubRow octo 10)\<lparr>row_id := 0\<rparr>)
   \<and> parseInt ''-5'' = Num (- 5)
   \<and> sendCoinsByGithubId [(newGithubRow octo 10)\<lparr>row_id := 0\<rparr>] octo ''-5''
       = (updateFirst (\<lambda>x. githubId x = Some (gu_id octo)) (increment (- 5))
            [(newGithubRow octo 10)\<lparr>row_id := 0\<rparr>],
          Returned \<lparr>status = SUCCESS, data = increment (- 5) ((newGithubRow octo 10)\<lparr>row_id := 0\<rparr>)\<rparr>)
   \<and> findUnique_discordId [aliceRow 10, bobRow 0] (du_id bob) = Some (bobRow 0)
   \<and> coins (bobRow 0) \<le> 0
   \<and> payCoinsByUserId [aliceRow 10, bobRow 0] alice bob (- 5)
       = ([aliceRow 10, bobRow 0], Raised INTERNAL_SERVER_ERROR insufficientBalance)
   \<and> 0 < coins (aliceRow 10) \<and> du_id alice \<noteq> du_id bob
   \<and> payCoinsByUserId [aliceRow 10, bobRow 0] bob alice (- 5)
       = ([aliceRow 15, bobRow (- 5)], Returned \<lparr>status = SUCCESS, data = bobRow (- 5)\<rparr>)
   \<and> balance [aliceRow 15, bobRow (- 5)] (du_id alice) = Some 15
   \<and> balance [aliceRow 15, bobRow (- 5)] (du_id bob) = Some (- 5)
   \<and> parseInt (optionCoins (adminGive ''-5'')) = Num (- 5)
   \<and> execute NoReply [aliceRow 10, bobRow 0] (adminGive ''-5'')
       = ([aliceRow 10, bobRow 0], Reply invalidAmount)"
proof -
  have 0: "(- 5 :: int) \<le> 0" by simp
  have 1: "findUnique_discordId [aliceRow 10, bobRow 0] (du_id alice) = Some (aliceRow 10)"
    by (simp add: findUnique_discordId_def sample_defs)
  have 2: "findUnique_discordId [aliceRow 10, bobRow 0] (du_id bob) = Some (bobRow 0)"
    by (simp add: findUnique_discordId_def sample_defs)
  have 3: "coins (bobRow 0) \<le> 0" "0 < coins (aliceRow 10)" by (simp_all add: sample_defs)
  have 4: "parseInt (optionCoins (adminGive ''-5'')) = Num (- 5)"
    by (simp add: adminGive_def parseInt_minus_5)
  have 5: "hasAdminRole (adminGive ''-5'')" by (simp add: adminGive_def)
  have 6: "find (\<lambda>x. githubId x = Some (gu_id octo)) [(newGithubRow octo 10)\<lparr>row_id := 0\<rparr>]
             = Some ((newGithubRow octo 10)\<lparr>row_id := 0\<rparr>)"
    by (simp add: newGithubRow_def)
  have 7: "du_id alice \<noteq> du_id bob" by (simp add: alice_def bob_def)
  have upd: "updateFirst (\<lambda>x. discordId x = Some (du_id bob)) (increment (- 5))
               (updateFirst (\<lambda>x. discordId x = Some (du_id alice)) (decrement (- 5))
                  [aliceRow 10, bobRow 0]) = [aliceRow 15, bobRow (- 5)]"
    by (simp add: sample_defs increment_def decrement_def)
  have inc: "increment (- 5) (bobRow 0) = bobRow (- 5)"
    by (simp add: sample_defs increment_def)
  have c: "coins (aliceRow 10) - - 5 = 15" "coins (bobRow 0) + - 5 = - 5"
    by (simp_all add: sample_defs)
  note T = C2_amount_not_validated [OF 0]
  note A = T [where rows = "[aliceRow 10, bobRow 0]" and u = alice and r = "aliceRow 10",
      THEN conjunct1, THEN mp, OF 1]
  note G = T [where rows = "[(newGithubRow octo 10)\<lparr>row_id := 0\<rparr>]" and g = octo
        and r = "(newGithubRow octo 10)\<lparr>row_id := 0\<rparr>" and cs = "''-5''",
      THEN conjunct2, THEN conjunct1, THEN mp, OF conjI [OF 6 parseInt_minus_5]]
  note B = T [where rows = "[aliceRow 10, bobRow 0]" and sender = bob and s = "bobRow 0"
        and receiver = alice,
      THEN conjunct2, THEN conjunct2, THEN conjunct1, THEN mp, OF conjI [OF 2 3(1)]]
  note C = T [where rows = "[aliceRow 10, bobRow 0]" and sender = alice and s = "aliceRow 10"
        and receiver = bob and r = "bobRow 0", unfolded Let_def,
      THEN conjunct2, THEN conjunct2, THEN conjunct2, THEN conjunct1, THEN mp,
      OF conjI [OF 1 conjI [OF 3(2) conjI [OF 2 7]]], unfolded upd inc c]
  note D = T [where rows = "[aliceRow 10, bobRow 0]" and i = "adminGive ''-5''"
        and whenInfinity = NoReply,
      THEN conjunct2, THEN conjunct2, THEN conjunct2, THEN conjunct2, THEN mp, OF 4]
  from 0 1 2 3 4 5 6 7 parseInt_minus_5 A G B C D show ?thesis by simp
qed

subsection \<open>Credit by GitHub id\<close>

text \<open>
  C8, as stated: \<^verbatim>\<open>sendCoinsByGithubId\<close> for a GitHub id with no row creates a user with the
  parsed coins. When a row already carries the e-mail address, the creation violates the
  unique constraint: nothing is written and the call fails with \<open>CONFLICT\<close>.
\<close>

theorem C8_counterexample:
  "find (\<lambda>r. githubId r = Some (gu_id octo)) [mailRow] = None
   \<and> parseInt ''15'' = Num 15
   \<and> sendCoinsByGithubId [mailRow] octo ''15'' = ([mailRow], Raised CONFLICT userAlreadyExists)"
  by (simp add: parseInt_15 sendCoinsByGithubId_def upsert_def create_def violatesUnique_def
      collides_def sameKey_def newGithubRow_def mailRow_def octo_def sample_defs
      UniqueConstraintViolation_def)

text \<open>
  C8, amended: \<^verbatim>\<open>sendCoinsByGithubId\<close> parses its coins argument with \<^verbatim>\<open>parseInt\<close>. Called for
  a GitHub id with no row, with a string that parses to the number \<open>n\<close> (\<^verbatim>\<open>"15"\<close> to 15):
  if no row carries the e-mail address, it appends a user whose coins are \<open>n\<close> and whose
  thumbnail is the given avatar URL as it is, and returns that user; if a row carries the
  e-mail address, nothing is written and the call fails with \<open>CONFLICT\<close>.
\<close>

theorem C8_github_credit_creates:
  assumes "find (\<lambda>r. githubId r = Some (gu_id g)) rows = None"
    and "parseInt cs = Num n"
  shows "(list_all (\<lambda>r. email r \<noteq> Some (gu_email g)) rows \<longrightarrow>
            (let created = (newGithubRow g n)\<lparr>row_id := length rows\<rparr>
             in sendCoinsByGithubId rows g cs
                  = (rows @ [created], Returned \<lparr>status = SUCCESS, data = created\<rparr>)
                \<and> coins created = n \<and> thumbnail created = avatarUrl g))
       \<and> (list_ex (\<lambda>r. email r = Some (gu_email g)) rows \<longrightarrow>
            sendCoinsByGithubId rows g cs = (rows, Raised CONFLICT userAlreadyExists))"
proof (intro conjI impI)
  assume "list_all (\<lambda>r. email r \<noteq> Some (gu_email g)) rows"
  with assms(1) have "\<not> violatesUnique rows (newGithubRow g n)"
    by (auto simp: violatesUnique_newGithubRow find_None_iff list_ex_iff list_all_iff)
  then show "let created = (newGithubRow g n)\<lparr>row_id := length rows\<rparr>
             in sendCoinsByGithubId rows g cs
                  = (rows @ [created], Returned \<lparr>status = SUCCESS, data = created\<rparr>)
                \<and> coins created = n \<and> thumbnail created = avatarUrl g"
    using assms by (simp add: sendCoinsByGithubId_def upsert_def create_fresh Let_def newGithubRow_def)
next
  assume "list_ex (\<lambda>r. email r = Some (gu_email g)) rows"
  then have "violatesUnique rows (newGithubRow g n)"
    by (auto simp: violatesUnique_newGithubRow list_ex_iff)
  then show "sendCoinsByGithubId rows g cs = (rows, Raised CONFLICT userAlreadyExists)"
    using assms by (simp add: sendCoinsByGithubId_def upsert_def create_taken)
qed

theorem C8_github_credit_creates_witness:
  "find (\<lambda>r. githubId r = Some (gu_id octo)) [aliceRow 10] = None
   \<and> list_all (\<lambda>r. email r \<noteq> Some (gu_email octo)) [aliceRow 10]
   \<and> parseInt ''15'' = Num 15
   \<and> sendCoinsByGithubId [aliceRow 10] octo ''15''
       = ([aliceRow 10, (newGithubRow octo 15)\<lparr>row_id := 1\<rparr>],
          Returned \<lparr>status = SUCCESS, data = (newGithubRow octo 15)\<lparr>row_id := 1\<rparr>\<rparr>)
   \<and> coins ((newGithubRow octo 15)\<lparr>row_id := 1\<rparr>) = 15
   \<and> thumbnail ((newGithubRow octo 15)\<lparr>row_id := 1\<rparr>) = ''https://avatars.example.org/u/583231''
   \<and> find (\<lambda>r. githubId r = Some (gu_id octo)) [mailRow] = None
   \<and> list_ex (\<lambda>r. email r = Some (gu_email octo)) [mailRow]
   \<and> sendCoinsByGithubId [mailRow] octo ''15'' = ([mailRow], Raised CONFLICT userAlreadyExists)"
proof -
  have 1: "find (\<lambda>r. githubId r = Some (gu_id octo)) [aliceRow 10] = None"
    by (simp add: sample_defs)
  have 2: "list_all (\<lambda>r. email r \<noteq> Some (gu_email octo)) [aliceRow 10]"
    by (simp add: sample_defs)
  have 3: "find (\<lambda>r. githubId r = Some (gu_id octo)) [mailRow] = None"
    by (simp add: mailRow_def sample_defs)
  have 4: "list_ex (\<lambda>r. email r = Some (gu_email octo)) [mailRow]"
    by (simp add: mailRow_def octo_def)
  have a: "avatarUrl octo = ''https://avatars.example.org/u/583231''" by (simp add: octo_def)
  note A = C8_github_credit_creates [OF 1 parseInt_15, THEN conjunct1, THEN mp, OF 2]
  note B = C8_github_credit_creates [OF 3 parseInt_15, THEN conjunct2, THEN mp, OF 4]
  from A B 1 2 3 4 parseInt_15 a show ?thesis by (simp add: Let_def)
qed

subsection \<open>Thumbnails\<close>

lemma natToString_0: "natToString 0 = ''0''"
  by code_simp

lemma natToString_2: "natToString 2 = ''2''"
  by code_simp

lemma remainder_nonneg: "0 \<le> n \<Longrightarrow> remainder (Num n) 5 = Num (n mod 5)"
  by (cases "n = 0") (simp_all add: remainder_def)

lemma remainder_neg: "n < 0 \<Longrightarrow> remainder (Num n) 5 = Num (- ((- n) mod 5))"
  by (simp add: remainder_def)

lemma parseInt_minus_7: "parseInt ''-7'' = Num (- 7)"
  by (simp add: parseInt_eval)

text \<open>
  C9, as stated: the thumbnail resolver is a pure function. The callback delivers the URL by
  assigning it to \<^verbatim>\<open>profile.image_url\<close>: the profile it was given has no image URL before
  the call and carries one after it.
\<close>

theorem C9_counterexample:
  "dp_image_url plainProfile = None
   \<and> profile ''c1'' plainProfile
       = Inr (plainProfile\<lparr>dp_image_url := Some ''https://cdn.discordapp.com/embed/avatars/2.png''\<rparr>,
              returned ''c1''
                (plainProfile\<lparr>dp_image_url := Some ''https://cdn.discordapp.com/embed/avatars/2.png''\<rparr>))
   \<and> dp_image_url (plainProfile\<lparr>dp_image_url := Some ''https://cdn.discordapp.com/embed/avatars/2.png''\<rparr>)
       \<noteq> dp_image_url plainProfile"
  by (simp add: plainProfile_def profile_def parseInt_7 remainder_def numberToString_def
      natToString_2 Let_def)

text \<open>
  C9, amended: for a profile whose avatar is a string or null the callback throws no error,
  and its thumbnail is determined by the avatar, the id and the discriminator alone, whatever
  the generated id and the previous \<^verbatim>\<open>image_url\<close>; it is not pure: it writes the thumbnail
  into \<^verbatim>\<open>image_url\<close> of its argument, and changes nothing else there. With a null avatar
  the thumbnail is the default-avatar URL whose index is \<^verbatim>\<open>parseInt(discriminator) % 5\<close>:
  for a discriminator that parses to a number \<open>n \<ge> 0\<close> the index is \<open>n mod 5\<close>, one of 0
  to 4 (\<^verbatim>\<open>"7"\<close> gives 2); for one that parses to \<open>n < 0\<close> it is 0 when 5 divides \<open>n\<close> and
  otherwise the negative number \<open>- (- n mod 5)\<close>; for one that parses to \<^verbatim>\<open>NaN\<close> or an
  infinity it is \<^verbatim>\<open>NaN\<close>. With an avatar hash the thumbnail is the avatar URL of the account,
  with extension \<^verbatim>\<open>gif\<close> when the hash starts with \<^verbatim>\<open>a_\<close> and \<^verbatim>\<open>png\<close> otherwise.
\<close>

theorem C9_thumbnail:
  "(isl (profile cuid p) \<longleftrightarrow> dp_avatar p = Undefined)
   \<and> (dp_avatar q = dp_avatar p \<and> dp_id q = dp_id p \<and> dp_discriminator q = dp_discriminator p \<longrightarrow>
      map_sum id (\<lambda>r. au_thumbnail (snd r)) (profile cuid' q)
        = map_sum id (\<lambda>r. au_thumbnail (snd r)) (profile cuid p))
   \<and> (dp_avatar p \<noteq> Undefined \<longrightarrow>
      profile cuid p
        = Inr (p\<lparr>dp_image_url := au_thumbnail (snd (projr (profile cuid p)))\<rparr>,
               returned cuid (p\<lparr>dp_image_url := au_thumbnail (snd (projr (profile cuid p)))\<rparr>)))
   \<and> (dp_avatar p = Null \<and> parseInt (dp_discriminator p) = Num n \<and> 0 \<le> n \<longrightarrow>
      au_thumbnail (snd (projr (profile cuid p)))
        = Some (''https://cdn.discordapp.com/embed/avatars/'' @ natToString (nat (n mod 5)) @ ''.png'')
      \<and> nat (n mod 5) < 5)
   \<and> (dp_avatar p = Null \<and> parseInt (dp_discriminator p) = Num n \<and> n < 0 \<longrightarrow>
      au_thumbnail (snd (projr (profile cuid p)))
        = Some (''https://cdn.discordapp.com/embed/avatars/''
                @ (if (- n) mod 5 = 0 then ''0'' else CHR ''-'' # natToString (nat ((- n) mod 5)))
                @ ''.png''))
   \<and> (dp_avatar p = Null
        \<and> (parseInt (dp_discriminator p) = NaN \<or> parseInt (dp_discriminator p) = PosInfinity
            \<or> parseInt (dp_discriminator p) = NegInfinity) \<longrightarrow>
      au_thumbnail (snd (projr (profile cuid p)))
        = Some ''https://cdn.discordapp.com/embed/avatars/NaN.png'')
   \<and> (dp_avatar p = Hash h \<longrightarrow>
      au_thumbnail (snd (projr (profile cuid p)))
        = Some (''https://cdn.discordapp.com/avatars/'' @ dp_id p @ ''/'' @ h
                @ (if startsWith h ''a_'' then ''.gif'' else ''.png'')))"
proof (intro conjI impI)
  show "isl (profile cuid p) \<longleftrightarrow> dp_avatar p = Undefined"
    by (simp add: profile_def Let_def split: avatar_value.split)
next
  assume "dp_avatar q = dp_avatar p \<and> dp_id q = dp_id p \<and> dp_discriminator q = dp_discriminator p"
  then show "map_sum id (\<lambda>r. au_thumbnail (snd r)) (profile cuid' q)
        = map_sum id (\<lambda>r. au_thumbnail (snd r)) (profile cuid p)"
    by (simp add: profile_def returned_def Let_def split: avatar_value.split)
next
  assume "dp_avatar p \<noteq> Undefined"
  then show "profile cuid p
        = Inr (p\<lparr>dp_image_url := au_thumbnail (snd (projr (profile cuid p)))\<rparr>,
               returned cuid (p\<lparr>dp_image_url := au_thumbnail (snd (projr (profile cuid p)))\<rparr>))"
    by (cases "dp_avatar p") (simp_all add: profile_def returned_def Let_def)
next
  assume h: "dp_avatar p = Null \<and> parseInt (dp_discriminator p) = Num n \<and> 0 \<le> n"
  then have "remainder (parseInt (dp_discriminator p)) 5 = Num (n mod 5)"
    by (simp add: remainder_nonneg)
  moreover have "0 \<le> n mod 5" by simp
  ultimately have "numberToString (remainder (parseInt (dp_discriminator p)) 5)
                   = natToString (nat (n mod 5))"
    by (simp add: numberToString_def)
  with h show "au_thumbnail (snd (projr (profile cuid p)))
        = Some (''https://cdn.discordapp.com/embed/avatars/'' @ natToString (nat (n mod 5)) @ ''.png'')"
    by (simp add: profile_def returned_def Let_def)
  show "nat (n mod 5) < 5" by simp
next
  assume h: "dp_avatar p = Null \<and> parseInt (dp_discriminator p) = Num n \<and> n < 0"
  then have r: "remainder (parseInt (dp_discriminator p)) 5 = Num (- ((- n) mod 5))"
    by (simp add: remainder_neg)
  have "0 \<le> (- n) mod 5" by simp
  then have "numberToString (Num (- ((- n) mod 5)))
             = (if (- n) mod 5 = 0 then ''0'' else CHR ''-'' # natToString (nat ((- n) mod 5)))"
    by (auto simp: numberToString_def natToString_0)
  with h r show "au_thumbnail (snd (projr (profile cuid p)))
        = Some (''https://cdn.discordapp.com/embed/avatars/''
                @ (if (- n) mod 5 = 0 then ''0'' else CHR ''-'' # natToString (nat ((- n) mod 5)))
                @ ''.png'')"
    by (simp add: profile_def returned_def Let_def)
next
  assume "dp_avatar p = Null
        \<and> (parseInt (dp_discriminator p) = NaN \<or> parseInt (dp_discriminator p) = PosInfinity
            \<or> parseInt (dp_discriminator p) = NegInfinity)"
  then show "au_thumbnail (snd (projr (profile cuid p)))
        = Some ''https://cdn.discordapp.com/embed/avatars/NaN.png''"
    by (auto simp: profile_def returned_def Let_def remainder_def numberToString_def)
next
  assume "dp_avatar p = Hash h"
  then show "au_thumbnail (snd (projr (profile cuid p)))
        = Some (''https://cdn.discordapp.com/avatars/'' @ dp_id p @ ''/'' @ h
                @ (if startsWith h ''a_'' then ''.gif'' else ''.png''))"
    by (simp add: profile_def returned_def Let_def)
qed

theorem C9_thumbnail_witness:
  "\<not> isl (profile ''c1'' plainProfile) \<and> dp_avatar plainProfile \<noteq> Undefined
   \<and> dp_avatar (plainProfile\<lparr>dp_image_url := Some ''x''\<rparr>) = dp_avatar plainProfile
   \<and> dp_id (plainProfile\<lparr>dp_image_url := Some ''x''\<rparr>) = dp_id plainProfile
   \<and> dp_discriminator (plainProfile\<lparr>dp_image_url := Some ''x''\<rparr>) = dp_discriminator plainProfile
   \<and> map_sum id (\<lambda>r. au_thumbnail (snd r)) (profile ''c2'' (plainProfile\<lparr>dp_image_url := Some ''x''\<rparr>))
       = map_sum id (\<lambda>r. au_thumbnail (snd r)) (profile ''c1'' plainProfile)
   \<and> dp_avatar plainProfile = Null \<and> parseInt (dp_discriminator plainProfile) = Num 7
   \<and> (0 :: int) \<le> 7
   \<and> au_thumbnail (snd (projr (profile ''c1'' plainProfile)))
       = Some ''https://cdn.discordapp.com/embed/avatars/2.png''
   \<and> profile ''c1'' plainProfile
       = Inr (plainProfile\<lparr>dp_image_url := Some ''https://cdn.discordapp.com/embed/avatars/2.png''\<rparr>,
              returned ''c1''
                (plainProfile\<lparr>dp_image_url := Some ''https://cdn.discordapp.com/embed/avatars/2.png''\<rparr>))
   \<and> parseInt (dp_discriminator (plainProfile\<lparr>dp_discriminator := ''-7''\<rparr>)) = Num (- 7)
   \<and> (- 7 :: int) < 0
   \<and> au_thumbnail (snd (projr (profile ''c1'' (plainProfile\<lparr>dp_discriminator := ''-7''\<rparr>))))
       = Some ''https://cdn.discordapp.com/embed/avatars/-2.png''
   \<and> parseInt (dp_discriminator (plainProfile\<lparr>dp_discriminator := ''abc''\<rparr>)) = NaN
   \<and> au_thumbnail (snd (projr (profile ''c1'' (plainProfile\<lparr>dp_discriminator := ''abc''\<rparr>))))
       = Some ''https://cdn.discordapp.com/embed/avatars/NaN.png''
   \<and> dp_avatar animatedProfile = Hash ''a_abc123''
   \<and> startsWith ''a_abc123'' ''a_''
   \<and> au_thumbnail (snd (projr (profile ''c1'' animatedProfile)))
       = Some ''https://cdn.discordapp.com/avatars/42/a_abc123.gif''"
proof -
  let ?q = "plainProfile\<lparr>dp_image_url := Some ''x''\<rparr>"
  let ?m = "plainProfile\<lparr>dp_discriminator := ''-7''\<rparr>"
  let ?a = "plainProfile\<lparr>dp_discriminator := ''abc''\<rparr>"
  have 0: "dp_avatar ?q = dp_avatar plainProfile \<and> dp_id ?q = dp_id plainProfile
           \<and> dp_discriminator ?q = dp_discriminator plainProfile" by simp
  have 1: "dp_avatar plainProfile = Null" by (simp add: plainProfile_def)
  have U: "dp_avatar plainProfile \<noteq> Undefined" by (simp add: plainProfile_def)
  have 2: "parseInt (dp_discriminator plainProfile) = Num 7" by (simp add: plainProfile_def parseInt_7)
  have 3: "(0 :: int) \<le> 7" "(- 7 :: int) < 0" by simp_all
  have 4: "dp_avatar animatedProfile = Hash ''a_abc123''" by (simp add: animatedProfile_def)
  have 5: "startsWith ''a_abc123'' ''a_''" by (simp add: startsWith_def)
  have 6: "dp_id animatedProfile = ''42''" by (simp add: animatedProfile_def plainProfile_def)
  have 7: "natToString (nat (7 mod 5)) = ''2''" by (simp add: natToString_2)
  have 8: "dp_avatar ?m = Null" "dp_avatar ?a = Null" by (simp_all add: plainProfile_def)
  have 9: "parseInt (dp_discriminator ?m) = Num (- 7)" by (simp add: parseInt_minus_7)
  have 10: "parseInt (dp_discriminator ?a) = NaN" by (simp add: parseInt_abc)
  note T = C9_thumbnail [where cuid = "''c1''"]
  note Z = T [where p = plainProfile, THEN conjunct1]
  note A = T [where p = plainProfile and q = ?q and cuid' = "''c2''", THEN conjunct2, THEN conjunct1,
      THEN mp, OF 0]
  note B = T [where p = plainProfile and n = 7, THEN conjunct2, THEN conjunct2, THEN conjunct2,
      THEN conjunct1, THEN mp, OF conjI [OF 1 conjI [OF 2 3(1)]], THEN conjunct1, unfolded 7]
  note S = T [where p = plainProfile, THEN conjunct2, THEN conjunct2, THEN conjunct1, THEN mp,
      OF U, unfolded B]
  note C = T [where p = ?m and n = "- 7", THEN conjunct2, THEN conjunct2, THEN conjunct2,
      THEN conjunct2, THEN conjunct1, THEN mp, OF conjI [OF 8(1) conjI [OF 9 3(2)]]]
  note D = T [where p = ?a, THEN conjunct2, THEN conjunct2, THEN conjunct2, THEN conjunct2,
      THEN conjunct2, THEN conjunct1, THEN mp, OF conjI [OF 8(2) disjI1 [OF 10]]]
  note E = T [where p = animatedProfile and h = "''a_abc123''", THEN conjunct2, THEN conjunct2,
      THEN conjunct2, THEN conjunct2, THEN conjunct2, THEN conjunct2, THEN mp, OF 4, unfolded 6]
  from Z U have Z': "\<not> isl (profile ''c1'' plainProfile)" by simp
  from C have C': "au_thumbnail (snd (projr (profile ''c1'' ?m)))
                   = Some ''https://cdn.discordapp.com/embed/avatars/-2.png''"
    by (simp add: natToString_2)
  from 0 1 U 2 3 4 5 9 10 Z' A B S C' D E show ?thesis by simp
qed

end
